theory Spec2Isabelle
  imports Main "HOL-Library.Word"
begin

unbundle bit_operations_syntax

section \<open>The JavaScript values and built-ins that script.js uses\<close>

text \<open>
  A JavaScript string is a sequence of UTF-16 code units. The model's \<open>string\<close> carries
  the code units below 256; \<open>length\<close> is the \<open>.length\<close> of the string.
  A number is an integer (\<open>int\<close>) where the code produces integers only, as
  \<open>Math.floor\<close> does for every time counter, and an \<open>int option\<close> where the code can
  produce \<open>NaN\<close>, which is \<open>None\<close>. Fractions and infinities do not occur on any
  path of the page.
  The arguments of \<open>generateOTP\<close> are dynamically typed. Its documentation comment
  announces two numbers; every caller passes a number as the time and the text of an
  input field as the secret. The time is therefore an \<open>int\<close>, and the secret a
  \<open>jsval\<close>, a number or a string.
\<close>

type_synonym byte = "8 word"

datatype jsval = Num int | Str string

text \<open>
  The digit characters of \<open>Number.prototype.toString(radix)\<close>, for a radix from 2 to
  36. No digit beyond 35 is ever asked for.
\<close>

definition digit_char :: "nat \<Rightarrow> char" where
  "digit_char d =
     (if d < 36 then ''0123456789abcdefghijklmnopqrstuvwxyz'' ! d else CHR ''?'')"

function digits :: "nat \<Rightarrow> nat \<Rightarrow> string" where
  "digits radix n =
     (if radix < 2 \<or> n < radix then [digit_char n]
      else digits radix (n div radix) @ [digit_char (n mod radix)])"
  by pat_completeness auto
termination
  by (relation "measure (\<lambda>(radix, n). n)") auto

declare digits.simps [simp del]

text \<open>
  \<open>x.toString(radix)\<close> for a number \<open>x\<close>: \<open>NaN\<close> prints as \<open>NaN\<close>, a negative
  integer as a minus sign followed by the digits of its absolute value.
\<close>

definition Number_toString :: "nat \<Rightarrow> int option \<Rightarrow> string" where
  "Number_toString radix x =
     (case x of
        None \<Rightarrow> ''NaN''
      | Some i \<Rightarrow> if i < 0 then CHR ''-'' # digits radix (nat (- i)) else digits radix (nat i))"

text \<open>
  \<open>v.toString(radix)\<close> as the call in \<open>generateOTP\<close> dispatches it:
  \<open>String.prototype.toString\<close> takes no argument and returns the string itself.
\<close>

fun toString :: "nat \<Rightarrow> jsval \<Rightarrow> string" where
  "toString radix (Num i) = Number_toString radix (Some i)"
| "toString radix (Str s) = s"

text \<open>
  \<open>s.padStart(n, fill)\<close>: \<open>s\<close> itself when it has \<open>n\<close> code units or more or the filler
  is empty, otherwise the filler repeated and cut to the missing length, then \<open>s\<close>.
\<close>

definition padStart :: "nat \<Rightarrow> string \<Rightarrow> string \<Rightarrow> string" where
  "padStart n fill s =
     (if n \<le> length s \<or> fill = [] then s
      else take (n - length s) (concat (replicate (n - length s) fill)) @ s)"

text \<open>
  \<open>s.substring(start, end)\<close>: \<open>NaN\<close> counts as 0, both indices are clamped to
  \<open>0 .. s.length\<close>, and they are swapped when \<open>start\<close> is the larger.
\<close>

definition clamp_index :: "nat \<Rightarrow> int option \<Rightarrow> nat" where
  "clamp_index len x =
     (case x of None \<Rightarrow> 0 | Some i \<Rightarrow> if i < 0 then 0 else min (nat i) len)"

definition substring :: "string \<Rightarrow> int option \<Rightarrow> int option \<Rightarrow> string" where
  "substring s start fin =
     (let a = clamp_index (length s) start;
          b = clamp_index (length s) fin
      in take (max a b - min a b) (drop (min a b) s))"

text \<open>\<open>s.substring(start)\<close>: the end defaults to \<open>s.length\<close>.\<close>

definition substring_from :: "string \<Rightarrow> int option \<Rightarrow> string" where
  "substring_from s start = substring s start (Some (int (length s)))"

text \<open>
  \<open>parseInt(s, 16)\<close>: leading white space is skipped, then an optional sign, then an
  optional \<open>0x\<close> or \<open>0X\<close>; the longest run of hexadecimal digits that follows is the
  value, and \<open>NaN\<close> is returned when that run is empty.
\<close>

definition hexval :: "char \<Rightarrow> nat option" where
  "hexval c =
     (let n = (of_char c :: nat)
      in if 48 \<le> n \<and> n \<le> 57 then Some (n - 48)
         else if 97 \<le> n \<and> n \<le> 102 then Some (n - 87)
         else if 65 \<le> n \<and> n \<le> 70 then Some (n - 55)
         else None)"

definition is_hex :: "char \<Rightarrow> bool" where
  "is_hex c = (hexval c \<noteq> None)"

definition is_white :: "char \<Rightarrow> bool" where
  "is_white c = ((of_char c :: nat) \<in> {9, 10, 11, 12, 13, 32, 160})"

definition digit_value :: "char \<Rightarrow> nat" where
  "digit_value c = (case hexval c of None \<Rightarrow> 0 | Some d \<Rightarrow> d)"

definition hex_value :: "string \<Rightarrow> nat" where
  "hex_value ds = foldl (\<lambda>acc c. 16 * acc + digit_value c) 0 ds"

fun strip_sign :: "string \<Rightarrow> int \<times> string" where
  "strip_sign [] = (1, [])"
| "strip_sign (c # cs) =
     (if c = CHR ''-'' then (- 1, cs) else if c = CHR ''+'' then (1, cs) else (1, c # cs))"

fun strip_0x :: "string \<Rightarrow> string" where
  "strip_0x (a # b # cs) =
     (if a = CHR ''0'' \<and> (b = CHR ''x'' \<or> b = CHR ''X'') then cs else a # b # cs)"
| "strip_0x cs = cs"

definition parseInt16 :: "string \<Rightarrow> int option" where
  "parseInt16 s =
     (let (sign, rest) = strip_sign (dropWhile is_white s);
          z = takeWhile is_hex (strip_0x rest)
      in if z = [] then None else Some (sign * int (hex_value z)))"

text \<open>
  Arithmetic on numbers that may be \<open>NaN\<close>. The operator \<open>&\<close> converts both operands
  with ToInt32 (\<open>NaN\<close> becomes 0, an integer is reduced modulo \<open>2^32\<close>) and returns
  the signed reading of the 32-bit conjunction. The operator \<open>%\<close> truncates: the
  result has the sign of the dividend, and \<open>NaN\<close> comes out of a zero divisor.
\<close>

definition js_times :: "int option \<Rightarrow> int \<Rightarrow> int option" where
  "js_times x k = map_option (\<lambda>i. i * k) x"

definition js_plus :: "int option \<Rightarrow> int \<Rightarrow> int option" where
  "js_plus x k = map_option (\<lambda>i. i + k) x"

definition ToInt32 :: "int option \<Rightarrow> 32 word" where
  "ToInt32 x = (case x of None \<Rightarrow> 0 | Some i \<Rightarrow> word_of_int i)"

definition js_bitand :: "int option \<Rightarrow> int option \<Rightarrow> int" where
  "js_bitand x y = sint (ToInt32 x AND ToInt32 y)"

definition js_rem :: "int \<Rightarrow> int \<Rightarrow> int option" where
  "js_rem a b = (if b = 0 then None else Some (sgn a * (\<bar>a\<bar> mod \<bar>b\<bar>)))"

text \<open>
  \<open>s.replaceAll(p, r)\<close> for a pattern of one code unit, as both calls of the page
  have it.
\<close>

definition replaceAll :: "char \<Rightarrow> string \<Rightarrow> string \<Rightarrow> string" where
  "replaceAll p r s = concat (map (\<lambda>c. if c = p then r else [c]) s)"

text \<open>
  \<open>new TextEncoder().encode(s)\<close>: UTF-8. A code unit below 128 is one byte, one from
  128 to 255 is two bytes.
\<close>

definition encode :: "string \<Rightarrow> byte list" where
  "encode s =
     concat (map (\<lambda>c. let n = (of_char c :: nat)
                       in if n < 128 then [of_nat n]
                          else [of_nat (192 + n div 64), of_nat (128 + n mod 64)]) s)"

section \<open>The keyed hash of the platform\<close>

text \<open>
  \<open>window.crypto.subtle\<close> is the browser's, not the repository's. The functions below
  take it as the parameter \<open>sign\<close>: \<open>sign key message\<close> stands for \<open>importKey\<close> with the
  raw key bytes for HMAC with SHA-256, followed by \<open>sign\<close> on the message bytes. It either
  rejects (\<open>Inl\<close>) or resolves to the bytes of the signature.
\<close>

datatype error = PlatformError string

type_synonym subtle = "byte list \<Rightarrow> byte list \<Rightarrow> error + byte list"

section \<open>script.js\<close>

text \<open>
  \<open>generateHmac\<close>, lines 7 to 14: every byte of the signature is printed with
  \<open>toString(16).padStart(2, '0')\<close> and the pieces are joined (\<open>hex_join\<close>, lines 11
  to 13).
\<close>

definition hex_join :: "byte list \<Rightarrow> string" where
  "hex_join signature =
     concat (map (\<lambda>b. padStart 2 ''0'' (Number_toString 16 (Some (uint b)))) signature)"

definition generateHmac :: "subtle \<Rightarrow> string \<Rightarrow> string \<Rightarrow> error + string" where
  "generateHmac sign key message =
     (case sign (encode key) (encode message) of
        Inl e \<Rightarrow> Inl e
      | Inr signature \<Rightarrow> Inr (hex_join signature))"

text \<open>\<open>generateOTP\<close>, lines 22 to 29. \<open>otp_of_hmac\<close> is lines 26 to 28, on the tag.\<close>

definition timeHex :: "int \<Rightarrow> string" where
  "timeHex time = padStart 16 ''0'' (Number_toString 16 (Some time))"

definition secretHex :: "jsval \<Rightarrow> string" where
  "secretHex secret = padStart 16 ''0'' (toString 16 secret)"

definition otp_of_hmac :: "string \<Rightarrow> string" where
  "otp_of_hmac hmac =
     (let offset = parseInt16 (substring_from hmac (Some (int (length hmac) - 1)));
          otp = js_rem (js_bitand
                  (parseInt16 (substring hmac (js_times offset 2) (js_plus (js_times offset 2) 8)))
                  (Some 0x7fffffff)) 1000000
      in padStart 6 ''0'' (Number_toString 10 otp))"

definition generateOTP :: "subtle \<Rightarrow> int \<Rightarrow> jsval \<Rightarrow> error + string" where
  "generateOTP sign time secret =
     (case generateHmac sign (secretHex secret) (timeHex time) of
        Inl e \<Rightarrow> Inl e
      | Inr hmac \<Rightarrow> Inr (otp_of_hmac hmac))"

text \<open>\<open>formatOTP\<close>, lines 106 to 108.\<close>

definition formatOTP :: "string \<Rightarrow> string" where
  "formatOTP otp = substring otp (Some 0) (Some 3) @ '' '' @ substring_from otp (Some 3)"

subsection \<open>The clock and the page\<close>

text \<open>
  What the page's functions read and write beside their arguments: the wall clock, read
  by \<open>Date.now()\<close>, the \<open>value\<close> of the input elements and the \<open>innerText\<close> of the
  output elements, both by element id. Time passes between two readings of the clock:
  \<open>clock w i\<close> is the number of milliseconds that the reading number \<open>i\<close> returns, and
  \<open>reads w\<close> counts the readings made so far.
\<close>

record world =
  clock :: "nat \<Rightarrow> int"
  reads :: nat
  field_value :: "string \<Rightarrow> string"
  innerText :: "string \<Rightarrow> string"

definition Date_now :: "world \<Rightarrow> int \<times> world" where
  "Date_now w = (clock w (reads w), w\<lparr>reads := Suc (reads w)\<rparr>)"

text \<open>
  An asynchronous function of the page: from a world to its result, a rejection
  (\<open>Inl\<close>) or a value, and the world it leaves. \<open>await_then m f\<close> is \<open>f\<close> applied to
  the awaited value of \<open>m\<close>; a rejection of \<open>m\<close> ends the caller, which rejects too.
\<close>

definition await_then ::
  "(world \<Rightarrow> (error + 'a) \<times> world) \<Rightarrow> ('a \<Rightarrow> world \<Rightarrow> (error + 'b) \<times> world) \<Rightarrow>
   world \<Rightarrow> (error + 'b) \<times> world" where
  "await_then m f w = (case m w of (Inl e, w') \<Rightarrow> (Inl e, w') | (Inr x, w') \<Rightarrow> f x w')"

text \<open>
  The seven generators, lines 36 to 99. \<open>Math.floor(Date.now() / c)\<close> is the integer
  quotient rounded down, which is \<open>div\<close> on \<open>int\<close>.
\<close>

definition generateMonthlyOTP :: "subtle \<Rightarrow> jsval \<Rightarrow> world \<Rightarrow> (error + string) \<times> world" where
  "generateMonthlyOTP sign secret w =
     (let (now, w') = Date_now w;
          currentMonthSinceEpoch = now div 2592000000
      in (generateOTP sign currentMonthSinceEpoch secret, w'))"

definition generateBiWeeklyOTP :: "subtle \<Rightarrow> jsval \<Rightarrow> world \<Rightarrow> (error + string) \<times> world" where
  "generateBiWeeklyOTP sign secret w =
     (let (now, w') = Date_now w;
          currentWeekSinceEpoch = now div 1209600000
      in (generateOTP sign currentWeekSinceEpoch secret, w'))"

definition generateWeeklyOTP :: "subtle \<Rightarrow> jsval \<Rightarrow> world \<Rightarrow> (error + string) \<times> world" where
  "generateWeeklyOTP sign secret w =
     (let (now, w') = Date_now w;
          currentWeekSinceEpoch = now div 604800000
      in (generateOTP sign currentWeekSinceEpoch secret, w'))"

definition generateDailyOTP :: "subtle \<Rightarrow> jsval \<Rightarrow> world \<Rightarrow> (error + string) \<times> world" where
  "generateDailyOTP sign secret w =
     (let (now, w') = Date_now w;
          currentDaySinceEpoch = now div 86400000
      in (generateOTP sign currentDaySinceEpoch secret, w'))"

definition generateHourlyOTP :: "subtle \<Rightarrow> jsval \<Rightarrow> world \<Rightarrow> (error + string) \<times> world" where
  "generateHourlyOTP sign secret w =
     (let (now, w') = Date_now w;
          currentHourSinceEpoch = now div 3600000
      in (generateOTP sign currentHourSinceEpoch secret, w'))"

definition generate30MinuteOTP :: "subtle \<Rightarrow> jsval \<Rightarrow> world \<Rightarrow> (error + string) \<times> world" where
  "generate30MinuteOTP sign secret w =
     (let (now, w') = Date_now w;
          current30MinutesSinceEpoch = now div 1800000
      in (generateOTP sign current30MinutesSinceEpoch secret, w'))"

definition generateMinutelyOTP :: "subtle \<Rightarrow> jsval \<Rightarrow> world \<Rightarrow> (error + string) \<times> world" where
  "generateMinutelyOTP sign secret w =
     (let (now, w') = Date_now w;
          currentMinuteSinceEpoch = now div 60000
      in (generateOTP sign currentMinuteSinceEpoch secret, w'))"

text \<open>
  The seven generators side by side, each with the length of its window in
  milliseconds, the constant by which it divides the reading of the clock.
\<close>

definition generators ::
  "subtle \<Rightarrow> ((jsval \<Rightarrow> world \<Rightarrow> (error + string) \<times> world) \<times> int) list" where
  "generators sign =
     [(generateMonthlyOTP sign, 2592000000), (generateBiWeeklyOTP sign, 1209600000),
      (generateWeeklyOTP sign, 604800000), (generateDailyOTP sign, 86400000),
      (generateHourlyOTP sign, 3600000), (generate30MinuteOTP sign, 1800000),
      (generateMinutelyOTP sign, 60000)]"

text \<open>
  The callback of \<open>setInterval\<close>, lines 113 to 131: one pass over the seven
  granularities, each awaited before the next starts, then the seven writes.
\<close>

definition set_text :: "string \<Rightarrow> string \<Rightarrow> world \<Rightarrow> world" where
  "set_text ident t w = w\<lparr>innerText := (innerText w)(ident := t)\<rparr>"

definition interval_callback :: "subtle \<Rightarrow> world \<Rightarrow> (error + unit) \<times> world" where
  "interval_callback sign w =
     (let secret = Str (replaceAll CHR '' '' [] (field_value w ''secret''))
      in await_then (generateMonthlyOTP sign secret) (\<lambda>monthlyOTP.
         await_then (generateBiWeeklyOTP sign secret) (\<lambda>biWeeklyOTP.
         await_then (generateWeeklyOTP sign secret) (\<lambda>weeklyOTP.
         await_then (generateDailyOTP sign secret) (\<lambda>dailyOTP.
         await_then (generateHourlyOTP sign secret) (\<lambda>hourlyOTP.
         await_then (generate30MinuteOTP sign secret) (\<lambda>thirtyMinuteOTP.
         await_then (generateMinutelyOTP sign secret) (\<lambda>minuteOTP w7.
           (Inr (),
            set_text ''minute-otp'' (formatOTP minuteOTP)
            (set_text ''30-minute-otp'' (formatOTP thirtyMinuteOTP)
            (set_text ''hourly-otp'' (formatOTP hourlyOTP)
            (set_text ''daily-otp'' (formatOTP dailyOTP)
            (set_text ''weekly-otp'' (formatOTP weeklyOTP)
            (set_text ''biweekly-otp'' (formatOTP biWeeklyOTP)
            (set_text ''monthly-otp'' (formatOTP monthlyOTP) w7)))))))))))))) w)"

text \<open>
  \<open>testCodes\<close>, lines 137 to 157. \<open>codes.find(c => c.fn === code)\<close> is the first
  entry, in the order of the array, whose code is the same string as the input.
\<close>

definition testCodes :: "subtle \<Rightarrow> world \<Rightarrow> (error + unit) \<times> world" where
  "testCodes sign w =
     (let secret = Str (replaceAll CHR '' '' [] (field_value w ''secret''));
          code = replaceAll CHR '' '' [] (field_value w ''code'')
      in await_then (generateMonthlyOTP sign secret) (\<lambda>c1.
         await_then (generateBiWeeklyOTP sign secret) (\<lambda>c2.
         await_then (generateWeeklyOTP sign secret) (\<lambda>c3.
         await_then (generateDailyOTP sign secret) (\<lambda>c4.
         await_then (generateHourlyOTP sign secret) (\<lambda>c5.
         await_then (generate30MinuteOTP sign secret) (\<lambda>c6.
         await_then (generateMinutelyOTP sign secret) (\<lambda>c7 w7.
           (let codes = [(''Monthly'', c1), (''Bi-Weekly'', c2), (''Weekly'', c3),
                         (''Daily'', c4), (''Hourly'', c5), (''30-Minute'', c6),
                         (''Minute'', c7)]
            in case find (\<lambda>c. snd c = code) codes of
                 Some match \<Rightarrow>
                   (Inr (), set_text ''test-result'' (''Code matches '' @ fst match @ '' code'') w7)
               | None \<Rightarrow>
                   (Inr (), set_text ''test-result'' ''Code does not match any code'' w7))))))))) w)"

section \<open>A conforming platform\<close>

text \<open>
  To run the page's functions on concrete inputs the parameter \<open>sign\<close> needs a value.
  \<open>hmac_platform\<close> is the function that a conforming \<open>crypto.subtle\<close> computes for
  the algorithm the page asks for: HMAC (RFC 2104) over SHA-256 (FIPS 180-4), always
  resolving. Words of 32 bits are natural numbers below \<open>2^32\<close>, bytes are natural
  numbers below 256, and every addition is reduced modulo \<open>2^32\<close>. The constants are
  the first 32 bits of the fractional parts of the cube roots (\<open>K256\<close>) and of the
  square roots (\<open>H256\<close>) of the first primes. The padded message is a whole number of
  blocks of 64 bytes, so the window of the message schedule, which starts as the 16
  words of a block and moves by one word per round, always holds 16 words.
\<close>

type_synonym w32 = nat

definition add32 :: "w32 \<Rightarrow> w32 \<Rightarrow> w32" where
  "add32 x y = (x + y) mod 4294967296"

definition rotr :: "nat \<Rightarrow> w32 \<Rightarrow> w32" where
  "rotr n x = x div 2 ^ n + (x mod 2 ^ n) * 2 ^ (32 - n)"

definition Ch :: "w32 \<Rightarrow> w32 \<Rightarrow> w32 \<Rightarrow> w32" where
  "Ch e f g = (e AND f) XOR ((4294967295 - e) AND g)"

definition Maj :: "w32 \<Rightarrow> w32 \<Rightarrow> w32 \<Rightarrow> w32" where
  "Maj a b c = (a AND b) XOR (a AND c) XOR (b AND c)"

definition Sigma0 :: "w32 \<Rightarrow> w32" where
  "Sigma0 x = rotr 2 x XOR rotr 13 x XOR rotr 22 x"

definition Sigma1 :: "w32 \<Rightarrow> w32" where
  "Sigma1 x = rotr 6 x XOR rotr 11 x XOR rotr 25 x"

definition sigma0 :: "w32 \<Rightarrow> w32" where
  "sigma0 x = rotr 7 x XOR rotr 18 x XOR x div 2 ^ 3"

definition sigma1 :: "w32 \<Rightarrow> w32" where
  "sigma1 x = rotr 17 x XOR rotr 19 x XOR x div 2 ^ 10"

definition K256 :: "w32 list" where
  "K256 =
     [1116352408, 1899447441, 3049323471, 3921009573, 961987163, 1508970993,
      2453635748, 2870763221, 3624381080, 310598401, 607225278, 1426881987,
      1925078388, 2162078206, 2614888103, 3248222580, 3835390401, 4022224774,
      264347078, 604807628, 770255983, 1249150122, 1555081692, 1996064986,
      2554220882, 2821834349, 2952996808, 3210313671, 3336571891, 3584528711,
      113926993, 338241895, 666307205, 773529912, 1294757372, 1396182291,
      1695183700, 1986661051, 2177026350, 2456956037, 2730485921, 2820302411,
      3259730800, 3345764771, 3516065817, 3600352804, 4094571909, 275423344,
      430227734, 506948616, 659060556, 883997877, 958139571, 1322822218,
      1537002063, 1747873779, 1955562222, 2024104815, 2227730452, 2361852424,
      2428436474, 2756734187, 3204031479, 3329325298]"

definition H256 :: "w32 list" where
  "H256 =
     [1779033703, 3144134277, 1013904242, 2773480762, 1359893119, 2600822924,
      528734635, 1541459225]"

definition next_word :: "w32 list \<Rightarrow> w32" where
  "next_word win =
     add32 (add32 (sigma1 (win ! 14)) (win ! 9)) (add32 (sigma0 (win ! 1)) (win ! 0))"

fun round256 :: "w32 list \<Rightarrow> w32 \<Rightarrow> w32 \<Rightarrow> w32 list" where
  "round256 [a, b, c, d, e, f, g, h] k w =
     (let t1 = add32 (add32 (add32 h (Sigma1 e)) (add32 (Ch e f g) k)) w;
          t2 = add32 (Sigma0 a) (Maj a b c)
      in [add32 t1 t2, a, b, c, add32 d t1, e, f, g])"
| "round256 s k w = s"

fun step :: "w32 list \<times> w32 list \<Rightarrow> w32 \<Rightarrow> w32 list \<times> w32 list" where
  "step (s, win) k = (round256 s k (hd win), tl win @ [next_word win])"

fun words_of :: "nat list \<Rightarrow> w32 list" where
  "words_of (a # b # c # d # bs) = (16777216 * a + 65536 * b + 256 * c + d) # words_of bs"
| "words_of bs = []"

definition compress :: "w32 list \<Rightarrow> nat list \<Rightarrow> w32 list" where
  "compress s block = map2 add32 s (fst (foldl step (s, words_of block) K256))"

function blocks :: "nat list \<Rightarrow> nat list list" where
  "blocks bs = (if bs = [] then [] else take 64 bs # blocks (drop 64 bs))"
  by pat_completeness auto
termination
  by (relation "measure length") auto

declare blocks.simps [simp del]

definition be_bytes4 :: "w32 \<Rightarrow> nat list" where
  "be_bytes4 w = [w div 16777216, w div 65536 mod 256, w div 256 mod 256, w mod 256]"

definition pad :: "nat list \<Rightarrow> nat list" where
  "pad m =
     m @ [128] @ replicate ((119 - length m mod 64) mod 64) 0 @
     be_bytes4 (8 * length m div 4294967296) @ be_bytes4 (8 * length m mod 4294967296)"

definition sha256 :: "nat list \<Rightarrow> nat list" where
  "sha256 m = concat (map be_bytes4 (foldl compress H256 (blocks (pad m))))"

definition hmac_sha256 :: "nat list \<Rightarrow> nat list \<Rightarrow> nat list" where
  "hmac_sha256 key m =
     (let k0 = (if 64 < length key then sha256 key else key);
          k = k0 @ replicate (64 - length k0) 0
      in sha256 (map (\<lambda>b. b XOR 92) k @ sha256 (map (\<lambda>b. b XOR 54) k @ m)))"

definition hmac_platform :: subtle where
  "hmac_platform key message =
     Inr (map of_nat (hmac_sha256 (map unat key) (map unat message)))"

section \<open>The wording of the specification\<close>

text \<open>
  The character classes and the procedures that the specification names, written from
  its words, to compare the functions of the page with.
\<close>

definition lower_hex :: "char \<Rightarrow> bool" where
  "lower_hex c = (c \<in> set ''0123456789abcdef'')"

definition is_digit :: "char \<Rightarrow> bool" where
  "is_digit c = (c \<in> set ''0123456789'')"

text \<open>
  Section 4.2, steps 4 to 7: the offset is the value of the last hexadecimal character of
  the tag; the four bytes that start at byte \<open>offset\<close>, which is hexadecimal index
  \<open>offset * 2\<close>, are read as a big-endian unsigned integer; the high bit is masked off;
  the rest is reduced modulo one million.
\<close>

fun hex_bytes :: "string \<Rightarrow> nat list" where
  "hex_bytes (a # b # cs) = (16 * digit_value a + digit_value b) # hex_bytes cs"
| "hex_bytes cs = []"

definition big_endian :: "nat list \<Rightarrow> nat" where
  "big_endian bs = foldl (\<lambda>acc b. 256 * acc + b) 0 bs"

definition spec_offset :: "string \<Rightarrow> nat" where
  "spec_offset tag = digit_value (last tag)"

definition spec_otp_value :: "string \<Rightarrow> nat" where
  "spec_otp_value tag =
     (big_endian (hex_bytes (take 8 (drop (spec_offset tag * 2) tag))) AND 2147483647)
       mod 1000000"

text \<open>
  Section 4.4: the candidates are compared with the code in their order, and the label
  of the first equal one is the answer.
\<close>

fun first_match :: "(string \<times> string) list \<Rightarrow> string \<Rightarrow> string option" where
  "first_match [] code = None"
| "first_match ((label, otp) # rest) code =
     (if otp = code then Some label else first_match rest code)"

section \<open>Concrete runs\<close>

text \<open>
  Worlds and a platform on which the page's functions are run below. In
  \<open>straddling_world\<close> the first six readings of the clock fall in the last millisecond
  of the first minute after the epoch and the seventh in the next minute. In
  \<open>minute_world\<close> the clock stands at one minute after the epoch, the secret field holds
  sixteen zeros in groups of four and the code field holds a code as \<open>formatOTP\<close>
  prints it. \<open>grouped_world\<close> is the same with the two groups of the code separated
  by a given character. \<open>busy_platform\<close> signs one message only and rejects every
  other.
\<close>

definition straddling_world :: world where
  "straddling_world =
     \<lparr>clock = (\<lambda>i. if i < 6 then 59999 else 60000), reads = 0,
      field_value = (\<lambda>ident. []), innerText = (\<lambda>ident. [])\<rparr>"

definition minute_world :: world where
  "minute_world =
     \<lparr>clock = (\<lambda>i. 60000), reads = 0,
      field_value = (\<lambda>ident. if ident = ''secret'' then ''0000 0000 0000 0000''
                             else if ident = ''code'' then ''727 132'' else []),
      innerText = (\<lambda>ident. [])\<rparr>"

definition grouped_world :: "char \<Rightarrow> world" where
  "grouped_world separator =
     \<lparr>clock = (\<lambda>i. 60000), reads = 0,
      field_value = (\<lambda>ident. if ident = ''secret'' then ''0000 0000 0000 0000''
                             else if ident = ''code'' then ''727'' @ separator # ''132'' else []),
      innerText = (\<lambda>ident. [])\<rparr>"

definition busy_platform :: subtle where
  "busy_platform key message =
     (if message = encode ''0000000000000000'' then hmac_platform key message
      else Inl (PlatformError ''busy''))"

section \<open>Properties of the built-ins\<close>

subsection \<open>Digits and padding\<close>

lemma padStart_zero: "padStart n ''0'' s = replicate (n - length s) CHR ''0'' @ s"
proof -
  have "concat (replicate k ''0'') = replicate k CHR ''0''" for k
    by (induction k) simp_all
  then show ?thesis by (simp add: padStart_def)
qed

lemma length_padStart_zero: "length (padStart n ''0'' s) = max n (length s)"
  by (simp add: padStart_zero)

lemma below_16:
  assumes "d < (16::nat)"
  shows "d = 0 \<or> d = 1 \<or> d = 2 \<or> d = 3 \<or> d = 4 \<or> d = 5 \<or> d = 6 \<or> d = 7 \<or> d = 8 \<or> d = 9 \<or>
         d = 10 \<or> d = 11 \<or> d = 12 \<or> d = 13 \<or> d = 14 \<or> d = 15"
  using assms by arith

lemma digit_char_lower_hex: "d < 16 \<Longrightarrow> lower_hex (digit_char d)"
  by (drule below_16) (auto simp: lower_hex_def digit_char_def)

lemma digit_value_digit_char: "d < 16 \<Longrightarrow> digit_value (digit_char d) = d"
  by (drule below_16) (auto simp: digit_value_def hexval_def digit_char_def)

lemma digit_char_is_digit: "d < 10 \<Longrightarrow> is_digit (digit_char d)"
proof -
  assume "d < 10"
  then have "d < 16" "d \<noteq> 10" "d \<noteq> 11" "d \<noteq> 12" "d \<noteq> 13" "d \<noteq> 14" "d \<noteq> 15" by simp_all
  then show ?thesis
    by (auto dest!: below_16 simp: is_digit_def digit_char_def)
qed

lemma digits_lower_hex: "list_all lower_hex (digits 16 n)"
proof (induction "16::nat" n rule: digits.induct)
  case (1 n)
  show ?case
  proof (cases "n < 16")
    case True
    then show ?thesis by (simp add: digits.simps [of 16 n] digit_char_lower_hex)
  next
    case False
    with 1 show ?thesis by (simp add: digits.simps [of 16 n] digit_char_lower_hex)
  qed
qed

lemma digits_is_digit: "list_all is_digit (digits 10 n)"
proof (induction "10::nat" n rule: digits.induct)
  case (1 n)
  show ?case
  proof (cases "n < 10")
    case True
    then show ?thesis by (simp add: digits.simps [of 10 n] digit_char_is_digit)
  next
    case False
    with 1 show ?thesis by (simp add: digits.simps [of 10 n] digit_char_is_digit)
  qed
qed

lemma length_digits: "2 \<le> r \<Longrightarrow> 0 < k \<Longrightarrow> n < r ^ k \<Longrightarrow> length (digits r n) \<le> k"
proof (induction r n arbitrary: k rule: digits.induct)
  case (1 radix n)
  show ?case
  proof (cases "n < radix")
    case True
    with 1 show ?thesis by (simp add: digits.simps [of radix n])
  next
    case False
    with 1 have k: "1 < k" by (cases "k = 1") auto
    then obtain j where j: "k = Suc j" "0 < j" by (cases k) auto
    have "n div radix < radix ^ j"
      using 1(4) j 1(2) by (simp add: less_mult_imp_div_less mult.commute)
    with 1(1) [of j] False 1(2) j have "length (digits radix (n div radix)) \<le> j" by simp
    with False 1(2) j show ?thesis by (simp add: digits.simps [of radix n])
  qed
qed

lemma hex_value_append: "hex_value (xs @ [c]) = 16 * hex_value xs + digit_value c"
  by (simp add: hex_value_def)

lemma hex_value_digits: "hex_value (digits 16 n) = n"
proof (induction "16::nat" n rule: digits.induct)
  case (1 n)
  show ?case
  proof (cases "n < 16")
    case True
    then show ?thesis by (simp add: digits.simps [of 16 n] hex_value_def digit_value_digit_char)
  next
    case False
    with 1 show ?thesis
      by (simp add: digits.simps [of 16 n] hex_value_append digit_value_digit_char)
  qed
qed

lemma Number_toString_nat: "Number_toString r (Some (int n)) = digits r n"
  by (simp add: Number_toString_def)

lemma hex_value_zeros: "hex_value (replicate k CHR ''0'' @ s) = hex_value s"
proof -
  have "foldl (\<lambda>acc c. 16 * acc + digit_value c) 0 (replicate k CHR ''0'') = 0"
    by (induction k) (simp_all add: digit_value_def hexval_def)
  then show ?thesis by (simp add: hex_value_def)
qed

lemma hex16:
  assumes "0 \<le> i" "i < 16 ^ 16"
  shows "length (padStart 16 ''0'' (Number_toString 16 (Some i))) = 16"
    and "list_all lower_hex (padStart 16 ''0'' (Number_toString 16 (Some i)))"
    and "hex_value (padStart 16 ''0'' (Number_toString 16 (Some i))) = nat i"
proof -
  have eq: "Number_toString 16 (Some i) = digits 16 (nat i)"
    using assms(1) by (simp add: Number_toString_def)
  have "nat i < 16 ^ 16" using assms by (simp add: nat_less_iff)
  then have "length (digits 16 (nat i)) \<le> 16" by (intro length_digits) simp_all
  then show "length (padStart 16 ''0'' (Number_toString 16 (Some i))) = 16"
    by (simp add: eq length_padStart_zero)
  have "list_all lower_hex (replicate k CHR ''0'')" for k
    by (induction k) (simp_all add: lower_hex_def)
  then show "list_all lower_hex (padStart 16 ''0'' (Number_toString 16 (Some i)))"
    by (simp add: eq padStart_zero digits_lower_hex)
  show "hex_value (padStart 16 ''0'' (Number_toString 16 (Some i))) = nat i"
    by (simp add: eq padStart_zero hex_value_zeros hex_value_digits)
qed

lemma six_digits:
  assumes "n < 1000000"
  shows "length (padStart 6 ''0'' (digits 10 n)) = 6"
    and "list_all is_digit (padStart 6 ''0'' (digits 10 n))"
proof -
  have "n < 10 ^ 6" using assms by simp
  then have "length (digits 10 n) \<le> 6" by (intro length_digits) simp_all
  then show "length (padStart 6 ''0'' (digits 10 n)) = 6"
    by (simp add: length_padStart_zero)
  have "list_all is_digit (replicate k CHR ''0'')" for k
    by (induction k) (simp_all add: is_digit_def)
  then show "list_all is_digit (padStart 6 ''0'' (digits 10 n))"
    by (simp add: padStart_zero digits_is_digit)
qed

lemma replicate_num: "replicate (numeral k) x = x # replicate (pred_numeral k) x"
  by (simp add: numeral_eq_Suc)

subsection \<open>Reading hexadecimal digits\<close>

lemma lower_hex_is_hex: "lower_hex c \<Longrightarrow> is_hex c"
  by (auto simp: lower_hex_def is_hex_def hexval_def)

lemma is_hex_not_special:
  assumes "is_hex c"
  shows "\<not> is_white c" "c \<noteq> CHR ''-''" "c \<noteq> CHR ''+''" "c \<noteq> CHR ''x''" "c \<noteq> CHR ''X''"
  using assms by (auto simp: is_hex_def hexval_def is_white_def split: if_splits)

lemma digit_value_less: "digit_value c < 16"
  by (auto simp: digit_value_def hexval_def Let_def)

lemma parseInt16_hex:
  assumes "s \<noteq> []" "list_all is_hex s"
  shows "parseInt16 s = Some (int (hex_value s))"
proof -
  from assms obtain c cs where s: "s = c # cs" and c: "is_hex c" and cs: "list_all is_hex cs"
    by (cases s) auto
  have 1: "dropWhile is_white s = s"
    using s is_hex_not_special(1) [OF c] by simp
  have 2: "strip_sign s = (1, s)"
    using s is_hex_not_special(2,3) [OF c] by simp
  have 3: "strip_0x s = s"
  proof (cases cs)
    case Nil
    with s show ?thesis by simp
  next
    case (Cons b bs)
    with cs have "is_hex b" by simp
    from is_hex_not_special(4,5) [OF this] s Cons show ?thesis by simp
  qed
  have 4: "takeWhile is_hex s = s"
    using assms(2) by (simp add: list_all_iff)
  show ?thesis
    using assms(1) by (simp add: parseInt16_def 1 2 3 4)
qed

lemma hex_value_less: "hex_value s < 16 ^ length s"
proof (induction s rule: rev_induct)
  case Nil
  show ?case by (simp add: hex_value_def)
next
  case (snoc c s)
  have "hex_value (s @ [c]) = 16 * hex_value s + digit_value c"
    by (simp add: hex_value_def)
  moreover have "16 * hex_value s + digit_value c < 16 * (hex_value s + 1)"
    using digit_value_less [of c] by simp
  moreover have "16 * (hex_value s + 1) \<le> 16 * 16 ^ length s"
    using snoc by (simp add: Suc_leI)
  ultimately show ?case by simp
qed

lemma hex_value_bytes:
  "even (length s) \<Longrightarrow>
   foldl (\<lambda>acc c. 16 * acc + digit_value c) acc s =
   foldl (\<lambda>acc b. 256 * acc + b) acc (hex_bytes s)"
proof (induction s arbitrary: acc rule: hex_bytes.induct)
  case (1 a b cs)
  then show ?case by (simp add: algebra_simps)
qed simp_all

subsection \<open>The operators\<close>

lemma js_bitand_mask:
  "js_bitand x (Some 2147483647) =
     (case x of None \<Rightarrow> 0 | Some i \<Rightarrow> (i mod 2 ^ 32) AND 2147483647)"
proof -
  define w where "w = ToInt32 x"
  have u: "uint (w AND 2147483647) = uint w AND 2147483647"
    by (simp add: uint_and)
  have "0 \<le> uint w AND 2147483647" "uint w AND 2147483647 < 2 ^ 31"
    by simp_all
  then have "- (2 ^ 31) \<le> uint w AND 2147483647" "uint w AND 2147483647 < 2 ^ 31"
    by linarith+
  then have "signed_take_bit 31 (uint w AND 2147483647) = uint w AND 2147483647"
    by (rule signed_take_bit_int_eq_self)
  then have "sint (w AND 2147483647) = uint w AND 2147483647"
    by (simp add: sint_uint u)
  moreover have "uint w = (case x of None \<Rightarrow> 0 | Some i \<Rightarrow> i mod 2 ^ 32)"
    by (simp add: w_def ToInt32_def uint_word_of_int split: option.split)
  ultimately show ?thesis
    by (simp add: js_bitand_def ToInt32_def w_def split: option.split)
qed

lemma js_bitand_mask_range:
  "0 \<le> js_bitand x (Some 2147483647)" "js_bitand x (Some 2147483647) < 2 ^ 31"
  by (simp_all add: js_bitand_mask split: option.split)

lemma js_rem_nonneg: "0 \<le> a \<Longrightarrow> js_rem a 1000000 = Some (a mod 1000000)"
  by (cases "a = 0") (simp_all add: js_rem_def)

lemma replaceAll_filter: "replaceAll p [] s = filter (\<lambda>c. c \<noteq> p) s"
  by (induction s) (simp_all add: replaceAll_def)

lemma is_digit_not_space: "is_digit c \<Longrightarrow> c \<noteq> CHR '' ''"
  by (auto simp: is_digit_def)

section \<open>Properties of the functions of the page\<close>

subsection \<open>The tag\<close>

lemma hex_of_byte:
  fixes b :: byte
  shows "length (padStart 2 ''0'' (Number_toString 16 (Some (uint b)))) = 2"
    and "list_all lower_hex (padStart 2 ''0'' (Number_toString 16 (Some (uint b))))"
proof -
  have eq: "Number_toString 16 (Some (uint b)) = digits 16 (unat b)"
    using Number_toString_nat [of 16 "unat b"] by simp
  have "unat b < 2 ^ 8" using unsigned_less [of b] by simp
  then have "unat b < 16 ^ 2" by simp
  then have "length (digits 16 (unat b)) \<le> 2"
    by (intro length_digits) simp_all
  then show "length (padStart 2 ''0'' (Number_toString 16 (Some (uint b)))) = 2"
    by (simp add: eq length_padStart_zero)
  have "list_all lower_hex (replicate k CHR ''0'')" for k
    by (induction k) (simp_all add: lower_hex_def)
  then show "list_all lower_hex (padStart 2 ''0'' (Number_toString 16 (Some (uint b))))"
    by (simp add: eq padStart_zero digits_lower_hex)
qed

lemma length_hex_join: "length (hex_join sg) = 2 * length sg"
  by (induction sg) (simp_all add: hex_join_def hex_of_byte(1))

lemma lower_hex_hex_join: "list_all lower_hex (hex_join sg)"
  by (induction sg) (simp_all add: hex_join_def hex_of_byte(2))

lemma hex_join_simps:
  "hex_join [] = []"
  "hex_join (b # bs) = padStart 2 ''0'' (Number_toString 16 (Some (uint b))) @ hex_join bs"
  by (simp_all add: hex_join_def)

lemma generateHmac_Inr:
  "sign (encode key) (encode message) = Inr signature \<Longrightarrow>
   generateHmac sign key message = Inr (hex_join signature)"
  by (simp add: generateHmac_def)

subsection \<open>The truncation\<close>

lemma otp_of_hmac_value:
  "\<exists>n<1000000. otp_of_hmac hmac = padStart 6 ''0'' (digits 10 n)"
proof -
  define x where "x = parseInt16 (substring hmac
      (js_times (parseInt16 (substring_from hmac (Some (int (length hmac) - 1)))) 2)
      (js_plus (js_times (parseInt16 (substring_from hmac (Some (int (length hmac) - 1)))) 2) 8))"
  define v where "v = js_bitand x (Some 2147483647)"
  define n where "n = nat (v mod 1000000)"
  have v: "0 \<le> v" by (simp add: v_def js_bitand_mask_range)
  then have "v mod 1000000 = int n" by (simp add: n_def)
  with v have "js_rem v 1000000 = Some (int n)"
    by (simp add: js_rem_nonneg)
  then have "otp_of_hmac hmac = padStart 6 ''0'' (digits 10 n)"
    by (simp add: otp_of_hmac_def Let_def x_def [symmetric] v_def [symmetric] Number_toString_nat)
  moreover have "n < 1000000" using v by (simp add: n_def)
  ultimately show ?thesis by blast
qed

lemma otp_of_hmac_six: "length (otp_of_hmac hmac) = 6" "list_all is_digit (otp_of_hmac hmac)"
  using otp_of_hmac_value [of hmac] by (auto simp: six_digits)

lemma drop_last: "length xs = Suc n \<Longrightarrow> drop n xs = [last xs]"
proof (induction xs arbitrary: n)
  case Nil
  then show ?case by simp
next
  case (Cons x xs)
  then show ?case by (cases n) auto
qed

lemma tag_offset:
  assumes "length T = 64" "list_all is_hex T"
  shows "substring_from T (Some (int (length T) - 1)) = [last T]"
    and "parseInt16 (substring_from T (Some (int (length T) - 1))) = Some (int (spec_offset T))"
    and "spec_offset T \<le> 15"
proof -
  have "drop 63 T = [last T]" using assms(1) by (intro drop_last) simp
  then show 1: "substring_from T (Some (int (length T) - 1)) = [last T]"
    using assms(1) by (simp add: substring_from_def substring_def clamp_index_def)
  have "T \<noteq> []" using assms(1) by auto
  then have "last T \<in> set T" by simp
  with assms(2) have "is_hex (last T)" by (simp add: list_all_iff)
  then have "parseInt16 [last T] = Some (int (hex_value [last T]))"
    by (intro parseInt16_hex) simp_all
  then show "parseInt16 (substring_from T (Some (int (length T) - 1))) = Some (int (spec_offset T))"
    by (simp add: 1 spec_offset_def hex_value_def)
  show "spec_offset T \<le> 15"
    using digit_value_less [of "last T"] by (simp add: spec_offset_def)
qed

lemma tag_chunk:
  assumes "length T = 64" "list_all is_hex T" "k \<le> 15"
  shows "substring T (js_times (Some (int k)) 2) (js_plus (js_times (Some (int k)) 2) 8) =
         take 8 (drop (k * 2) T)"
    and "length (take 8 (drop (k * 2) T)) = 8"
    and "list_all is_hex (take 8 (drop (k * 2) T))"
    and "parseInt16 (take 8 (drop (k * 2) T)) = Some (int (hex_value (take 8 (drop (k * 2) T))))"
proof -
  show "substring T (js_times (Some (int k)) 2) (js_plus (js_times (Some (int k)) 2) 8) =
        take 8 (drop (k * 2) T)"
    using assms(1,3)
    by (simp add: substring_def clamp_index_def js_times_def js_plus_def Let_def
        nat_mult_distrib nat_add_distrib min_def max_def)
  show len: "length (take 8 (drop (k * 2) T)) = 8"
    using assms(1,3) by simp
  have "set (take 8 (drop (k * 2) T)) \<subseteq> set T"
    by (meson set_take_subset set_drop_subset subset_trans)
  with assms(2) show hex: "list_all is_hex (take 8 (drop (k * 2) T))"
    by (auto simp: list_all_iff)
  have "take 8 (drop (k * 2) T) \<noteq> []" using len by auto
  then show "parseInt16 (take 8 (drop (k * 2) T)) = Some (int (hex_value (take 8 (drop (k * 2) T))))"
    using hex by (rule parseInt16_hex)
qed

lemma otp_of_hmac_spec:
  assumes "length T = 64" "list_all is_hex T"
  shows "otp_of_hmac T = padStart 6 ''0'' (Number_toString 10 (Some (int (spec_otp_value T))))"
proof -
  define k where "k = spec_offset T"
  define chunk where "chunk = take 8 (drop (k * 2) T)"
  note off = tag_offset [OF assms]
  have k: "k \<le> 15" using off(3) by (simp add: k_def)
  note ch = tag_chunk [OF assms k, folded chunk_def]
  have "hex_value chunk < 16 ^ length chunk" by (rule hex_value_less)
  then have small: "int (hex_value chunk) < 2 ^ 32" by (simp add: ch(2))
  have "hex_value chunk = big_endian (hex_bytes chunk)"
    unfolding hex_value_def big_endian_def by (rule hex_value_bytes) (simp add: ch(2))
  then have v: "spec_otp_value T = (hex_value chunk AND 2147483647) mod 1000000"
    by (simp add: spec_otp_value_def k_def chunk_def)
  have "js_bitand (Some (int (hex_value chunk))) (Some 2147483647) =
        int (hex_value chunk) AND 2147483647"
    using small by (simp add: js_bitand_mask)
  also have "\<dots> = int (hex_value chunk AND 2147483647)"
    by (simp add: of_nat_and_eq)
  finally have band: "js_bitand (Some (int (hex_value chunk))) (Some 2147483647) =
        int (hex_value chunk AND 2147483647)" .
  have "js_rem (int (hex_value chunk AND 2147483647)) 1000000 = Some (int (spec_otp_value T))"
    by (simp add: js_rem_nonneg v zmod_int)
  then show ?thesis
    by (simp add: otp_of_hmac_def Let_def off(2) k_def [symmetric] ch(1) ch(4) band)
qed

lemma generateOTP_cases:
  "generateOTP sign time secret =
     (case sign (encode (secretHex secret)) (encode (timeHex time)) of
        Inl e \<Rightarrow> Inl e
      | Inr signature \<Rightarrow> Inr (otp_of_hmac (hex_join signature)))"
  by (simp add: generateOTP_def generateHmac_def split: sum.split)

lemma secretHex_empty: "secretHex (Str []) = ''0000000000000000''"
  by (simp add: secretHex_def padStart_def replicate_num)

lemma secretHex_zeros: "secretHex (Str ''0000000000000000'') = ''0000000000000000''"
  by (simp add: secretHex_def padStart_def)

lemma formatOTP_six: "length otp = 6 \<Longrightarrow> formatOTP otp = take 3 otp @ '' '' @ drop 3 otp"
  by (simp add: formatOTP_def substring_def substring_from_def clamp_index_def)

subsection \<open>The passes over the seven granularities\<close>

lemma generate_steps:
  "generateMonthlyOTP sign secret w =
     (generateOTP sign (clock w (reads w) div 2592000000) secret, w\<lparr>reads := Suc (reads w)\<rparr>)"
  "generateBiWeeklyOTP sign secret w =
     (generateOTP sign (clock w (reads w) div 1209600000) secret, w\<lparr>reads := Suc (reads w)\<rparr>)"
  "generateWeeklyOTP sign secret w =
     (generateOTP sign (clock w (reads w) div 604800000) secret, w\<lparr>reads := Suc (reads w)\<rparr>)"
  "generateDailyOTP sign secret w =
     (generateOTP sign (clock w (reads w) div 86400000) secret, w\<lparr>reads := Suc (reads w)\<rparr>)"
  "generateHourlyOTP sign secret w =
     (generateOTP sign (clock w (reads w) div 3600000) secret, w\<lparr>reads := Suc (reads w)\<rparr>)"
  "generate30MinuteOTP sign secret w =
     (generateOTP sign (clock w (reads w) div 1800000) secret, w\<lparr>reads := Suc (reads w)\<rparr>)"
  "generateMinutelyOTP sign secret w =
     (generateOTP sign (clock w (reads w) div 60000) secret, w\<lparr>reads := Suc (reads w)\<rparr>)"
  by (simp_all add: generateMonthlyOTP_def generateBiWeeklyOTP_def generateWeeklyOTP_def
      generateDailyOTP_def generateHourlyOTP_def generate30MinuteOTP_def
      generateMinutelyOTP_def Date_now_def)

lemma find_first_match:
  "map_option fst (find (\<lambda>c. snd c = code) codes) = first_match codes code"
  by (induction codes code rule: first_match.induct) simp_all

lemma interval_callback_run:
  assumes "secret = Str (replaceAll CHR '' '' [] (field_value w ''secret''))"
    and "generateOTP sign (clock w (reads w) div 2592000000) secret = Inr monthlyOTP"
    and "generateOTP sign (clock w (reads w + 1) div 1209600000) secret = Inr biWeeklyOTP"
    and "generateOTP sign (clock w (reads w + 2) div 604800000) secret = Inr weeklyOTP"
    and "generateOTP sign (clock w (reads w + 3) div 86400000) secret = Inr dailyOTP"
    and "generateOTP sign (clock w (reads w + 4) div 3600000) secret = Inr hourlyOTP"
    and "generateOTP sign (clock w (reads w + 5) div 1800000) secret = Inr thirtyMinuteOTP"
    and "generateOTP sign (clock w (reads w + 6) div 60000) secret = Inr minuteOTP"
  shows "interval_callback sign w =
     (Inr (),
      w\<lparr>reads := reads w + 7,
        innerText := (innerText w)
          (''monthly-otp'' := formatOTP monthlyOTP,
           ''biweekly-otp'' := formatOTP biWeeklyOTP,
           ''weekly-otp'' := formatOTP weeklyOTP,
           ''daily-otp'' := formatOTP dailyOTP,
           ''hourly-otp'' := formatOTP hourlyOTP,
           ''30-minute-otp'' := formatOTP thirtyMinuteOTP,
           ''minute-otp'' := formatOTP minuteOTP)\<rparr>)"
  using assms(2-8) unfolding interval_callback_def assms(1) [symmetric] Let_def
  by (simp add: await_then_def generate_steps set_text_def numeral_eq_Suc)

lemma generators_call:
  assumes "(G, c) \<in> set (generators sign)"
  shows "G secret w = (generateOTP sign (clock w (reads w) div c) secret, w\<lparr>reads := Suc (reads w)\<rparr>)"
  using assms by (auto simp: generators_def generate_steps)

lemma testCodes_run:
  assumes "secret = Str (replaceAll CHR '' '' [] (field_value w ''secret''))"
    and "code = replaceAll CHR '' '' [] (field_value w ''code'')"
    and "generateOTP sign (clock w (reads w) div 2592000000) secret = Inr c1"
    and "generateOTP sign (clock w (reads w + 1) div 1209600000) secret = Inr c2"
    and "generateOTP sign (clock w (reads w + 2) div 604800000) secret = Inr c3"
    and "generateOTP sign (clock w (reads w + 3) div 86400000) secret = Inr c4"
    and "generateOTP sign (clock w (reads w + 4) div 3600000) secret = Inr c5"
    and "generateOTP sign (clock w (reads w + 5) div 1800000) secret = Inr c6"
    and "generateOTP sign (clock w (reads w + 6) div 60000) secret = Inr c7"
    and "codes = [(''Monthly'', c1), (''Bi-Weekly'', c2), (''Weekly'', c3), (''Daily'', c4),
                  (''Hourly'', c5), (''30-Minute'', c6), (''Minute'', c7)]"
  shows "testCodes sign w =
     (Inr (),
      w\<lparr>reads := reads w + 7,
        innerText := (innerText w)
          (''test-result'' :=
             (case first_match codes code of
                Some label \<Rightarrow> ''Code matches '' @ label @ '' code''
              | None \<Rightarrow> ''Code does not match any code''))\<rparr>)"
proof -
  have seven: "Suc (Suc (Suc (Suc (Suc (Suc (Suc (reads w))))))) = reads w + 7"
    by simp
  have run: "testCodes sign w =
     (case find (\<lambda>c. snd c = code) codes of
        Some match \<Rightarrow>
          (Inr (), set_text ''test-result'' (''Code matches '' @ fst match @ '' code'')
             (w\<lparr>reads := reads w + 7\<rparr>))
      | None \<Rightarrow>
          (Inr (), set_text ''test-result'' ''Code does not match any code''
             (w\<lparr>reads := reads w + 7\<rparr>)))"
    using assms(3-9)
    unfolding testCodes_def assms(1) [symmetric] assms(2) [symmetric] assms(10) Let_def
    by (simp add: await_then_def generate_steps numeral_eq_Suc del: find.simps,
        simp only: seven)
  show "testCodes sign w =
     (Inr (),
      w\<lparr>reads := reads w + 7,
        innerText := (innerText w)
          (''test-result'' :=
             (case first_match codes code of
                Some label \<Rightarrow> ''Code matches '' @ label @ '' code''
              | None \<Rightarrow> ''Code does not match any code''))\<rparr>)"
    unfolding run find_first_match [of code codes, symmetric]
    by (cases "find (\<lambda>c. snd c = code) codes") (simp_all add: set_text_def)
qed

section \<open>The conforming platform on concrete inputs\<close>

text \<open>
  The signature of \<open>hmac_platform\<close> has 32 bytes whatever the key and the message
  are.
\<close>

lemma length_round256: "length (round256 s k w) = length s"
  by (induction s k w rule: round256.induct) (simp_all add: Let_def)

lemma length_foldl_step: "length (fst (foldl step (s, win) ks)) = length s"
  by (induction ks arbitrary: s win) (simp_all add: length_round256)

lemma length_compress: "length (compress s block) = length s"
  by (simp add: compress_def length_foldl_step)

lemma length_foldl_compress: "length (foldl compress s bs) = length s"
  by (induction bs arbitrary: s) (simp_all add: length_compress)

lemma length_concat_be_bytes4: "length (concat (map be_bytes4 ws)) = 4 * length ws"
  by (induction ws) (simp_all add: be_bytes4_def)

lemma length_sha256: "length (sha256 m) = 32"
  by (simp add: sha256_def length_concat_be_bytes4 length_foldl_compress H256_def)

lemma length_hmac_sha256: "length (hmac_sha256 key m) = 32"
  by (simp add: hmac_sha256_def Let_def length_sha256)

text \<open>
  The key \<open>0000000000000000\<close> in UTF-8 is sixteen bytes 48. Padded to the block of 64
  bytes and combined with the inner and the outer pad it gives the first block of the
  inner and of the outer hash; the second block of each holds the rest of the message,
  the padding and the length. One lemma per compression, then one per message: the
  counters 0 and 1, and the text that the counter \<open>-1\<close> prints as.
\<close>

lemma compress_ipad:
  "compress H256
    [6, 6, 6, 6, 6, 6, 6, 6, 6, 6, 6, 6, 6, 6, 6, 6, 54, 54, 54, 54, 54, 54, 54, 54, 54, 54,
     54, 54, 54, 54, 54, 54, 54, 54, 54, 54, 54, 54, 54, 54, 54, 54, 54, 54, 54, 54, 54, 54,
     54, 54, 54, 54, 54, 54, 54, 54, 54, 54, 54, 54, 54, 54, 54, 54] =
    [2261885975, 2612875182, 2357580973, 771850937, 1541443999, 778748985, 2586803140,
     2259525171]"
  by (simp add: H256_def compress_def K256_def next_word_def add32_def rotr_def Ch_def Maj_def
      Sigma0_def Sigma1_def sigma0_def sigma1_def Let_def)

lemma compress_opad:
  "compress H256
    [108, 108, 108, 108, 108, 108, 108, 108, 108, 108, 108, 108, 108, 108, 108, 108, 92, 92,
     92, 92, 92, 92, 92, 92, 92, 92, 92, 92, 92, 92, 92, 92, 92, 92, 92, 92, 92, 92, 92, 92,
     92, 92, 92, 92, 92, 92, 92, 92, 92, 92, 92, 92, 92, 92, 92, 92, 92, 92, 92, 92, 92, 92,
     92, 92] =
    [325634162, 466675224, 3769880517, 1545885007, 2855049255, 1216606092, 1351080958,
     1885725132]"
  by (simp add: H256_def compress_def K256_def next_word_def add32_def rotr_def Ch_def Maj_def
      Sigma0_def Sigma1_def sigma0_def sigma1_def Let_def)

lemma compress_inner_0:
  "compress [2261885975, 2612875182, 2357580973, 771850937, 1541443999, 778748985, 2586803140,
     2259525171]
    [48, 48, 48, 48, 48, 48, 48, 48, 48, 48, 48, 48, 48, 48, 48, 48, 128, 0, 0, 0, 0, 0, 0, 0,
     0, 0, 0, 0, 0, 0, 0, 0, 0, 0, 0, 0, 0, 0, 0, 0, 0, 0, 0, 0, 0, 0, 0, 0, 0, 0, 0, 0, 0, 0,
     0, 0, 0, 0, 0, 0, 0, 0, 2, 128] =
    [1983132400, 3834090677, 2451373585, 2943997105, 1964534021, 4053040713, 868572341,
     3204284792]"
  by (simp add: compress_def K256_def next_word_def add32_def rotr_def Ch_def Maj_def
      Sigma0_def Sigma1_def sigma0_def sigma1_def Let_def)

lemma compress_outer_0:
  "compress [325634162, 466675224, 3769880517, 1545885007, 2855049255, 1216606092, 1351080958,
     1885725132]
    [118, 52, 50, 240, 228, 135, 148, 181, 146, 28, 254, 17, 175, 121, 212, 177, 117, 24, 105,
     5, 241, 148, 126, 73, 51, 197, 92, 181, 190, 253, 129, 120, 128, 0, 0, 0, 0, 0, 0, 0, 0,
     0, 0, 0, 0, 0, 0, 0, 0, 0, 0, 0, 0, 0, 0, 0, 0, 0, 0, 0, 0, 0, 3, 0] =
    [886078801, 2715051288, 378351630, 2314073993, 2692989366, 693090839, 1190709206,
     2858455556]"
  by (simp add: compress_def K256_def next_word_def add32_def rotr_def Ch_def Maj_def
      Sigma0_def Sigma1_def sigma0_def sigma1_def Let_def)

lemma compress_inner_1:
  "compress [2261885975, 2612875182, 2357580973, 771850937, 1541443999, 778748985, 2586803140,
     2259525171]
    [48, 48, 48, 48, 48, 48, 48, 48, 48, 48, 48, 48, 48, 48, 48, 49, 128, 0, 0, 0, 0, 0, 0, 0,
     0, 0, 0, 0, 0, 0, 0, 0, 0, 0, 0, 0, 0, 0, 0, 0, 0, 0, 0, 0, 0, 0, 0, 0, 0, 0, 0, 0, 0, 0,
     0, 0, 0, 0, 0, 0, 0, 0, 2, 128] =
    [2974739209, 3102630078, 255084652, 2583575853, 25570372, 2236549780, 2084036886,
     1982698966]"
  by (simp add: compress_def K256_def next_word_def add32_def rotr_def Ch_def Maj_def
      Sigma0_def Sigma1_def sigma0_def sigma1_def Let_def)

lemma compress_outer_1:
  "compress [325634162, 466675224, 3769880517, 1545885007, 2855049255, 1216606092, 1351080958,
     1885725132]
    [177, 78, 235, 9, 184, 238, 96, 190, 15, 52, 72, 108, 153, 254, 61, 45, Suc 0, 134, 44, 68,
     133, 79, 10, 148, 124, 55, 225, 22, 118, 45, 149, 214, 128, 0, 0, 0, 0, 0, 0, 0, 0, 0, 0,
     0, 0, 0, 0, 0, 0, 0, 0, 0, 0, 0, 0, 0, 0, 0, 0, 0, 0, 0, 3, 0] =
    [3035333297, 480479444, 2770129567, 3280003473, 1159110046, 2847480362, 2879811353,
     1004987233]"
  by (simp add: compress_def K256_def next_word_def add32_def rotr_def Ch_def Maj_def
      Sigma0_def Sigma1_def sigma0_def sigma1_def Let_def)

lemma compress_inner_neg:
  "compress [2261885975, 2612875182, 2357580973, 771850937, 1541443999, 778748985, 2586803140,
     2259525171]
    [48, 48, 48, 48, 48, 48, 48, 48, 48, 48, 48, 48, 48, 48, 45, 49, 128, 0, 0, 0, 0, 0, 0, 0,
     0, 0, 0, 0, 0, 0, 0, 0, 0, 0, 0, 0, 0, 0, 0, 0, 0, 0, 0, 0, 0, 0, 0, 0, 0, 0, 0, 0, 0, 0,
     0, 0, 0, 0, 0, 0, 0, 0, 2, 128] =
    [932049363, 2919902144, 1853791441, 3801250734, 972736411, 1010741331, 3549580257,
     1204216502]"
  by (simp add: compress_def K256_def next_word_def add32_def rotr_def Ch_def Maj_def
      Sigma0_def Sigma1_def sigma0_def sigma1_def Let_def)

lemma compress_outer_neg:
  "compress [325634162, 466675224, 3769880517, 1545885007, 2855049255, 1216606092, 1351080958,
     1885725132]
    [55, 141, 241, 211, 174, 10, 43, 192, 110, 126, 156, 209, 226, 146, 123, 174, 57, 250,
     199, 155, 60, 62, 176, 83, 211, 146, 75, 225, 71, 198, 226, 182, 128, 0, 0, 0, 0, 0, 0, 0,
     0, 0, 0, 0, 0, 0, 0, 0, 0, 0, 0, 0, 0, 0, 0, 0, 0, 0, 0, 0, 0, 0, 3, 0] =
    [489567397, 2286687609, 437933811, 1696408095, 99030014, 2283375989, 1802541172,
     136277724]"
  by (simp add: compress_def K256_def next_word_def add32_def rotr_def Ch_def Maj_def
      Sigma0_def Sigma1_def sigma0_def sigma1_def Let_def)

lemma hmac_sha256_0:
  "hmac_sha256 [48, 48, 48, 48, 48, 48, 48, 48, 48, 48, 48, 48, 48, 48, 48, 48]
    [48, 48, 48, 48, 48, 48, 48, 48, 48, 48, 48, 48, 48, 48, 48, 48] =
    [52, 208, 125, 81, 161, 212, 101, 24, 22, 141, 48, 14, 137, 237, 247, 137, 160, 131, 193,
     182, 41, 79, 186, 23, 70, 248, 199, 214, 170, 96, 146, 4]"
  unfolding hmac_sha256_def Let_def
  by (simp add: sha256_def pad_def blocks.simps replicate_num be_bytes4_def
      compress_ipad compress_opad compress_inner_0 compress_outer_0)

lemma hmac_sha256_1:
  "hmac_sha256 [48, 48, 48, 48, 48, 48, 48, 48, 48, 48, 48, 48, 48, 48, 48, 48]
    [48, 48, 48, 48, 48, 48, 48, 48, 48, 48, 48, 48, 48, 48, 48, 49] =
    [180, 235, 130, 177, 28, 163, 136, 212, 165, 28, 210, 159, 195, 128, 225, 145, 69, 22,
     157, 158, 169, 185, 26, 42, 171, 166, 111, 25, 59, 230, 227, 97]"
  unfolding hmac_sha256_def Let_def
  by (simp add: sha256_def pad_def blocks.simps replicate_num be_bytes4_def
      compress_ipad compress_opad compress_inner_1 compress_outer_1)

lemma hmac_sha256_neg:
  "hmac_sha256 [48, 48, 48, 48, 48, 48, 48, 48, 48, 48, 48, 48, 48, 48, 48, 48]
    [48, 48, 48, 48, 48, 48, 48, 48, 48, 48, 48, 48, 48, 48, 45, 49] =
    [29, 46, 52, 165, 136, 76, 21, 121, 26, 26, 86, 243, 101, 29, 34, 31, 5, 231, 19, 254,
     136, 25, 141, 117, 107, 112, 152, 116, 8, 31, 110, 220]"
  unfolding hmac_sha256_def Let_def
  by (simp add: sha256_def pad_def blocks.simps replicate_num be_bytes4_def
      compress_ipad compress_opad compress_inner_neg compress_outer_neg)

text \<open>
  The tags and the codes that \<open>generateOTP\<close> derives from them.
\<close>

lemma timeHex_0: "timeHex 0 = ''0000000000000000''"
  by (simp add: timeHex_def Number_toString_def digits.simps digit_char_def padStart_def
      replicate_num)

lemma timeHex_1: "timeHex 1 = ''0000000000000001''"
  by (simp add: timeHex_def Number_toString_def digits.simps digit_char_def padStart_def
      replicate_num)

lemma timeHex_neg: "timeHex (- 1) = ''00000000000000-1''"
  by (simp add: timeHex_def Number_toString_def digits.simps digit_char_def padStart_def
      replicate_num)

lemma encode_0: "encode ''0000000000000000'' =
    [48, 48, 48, 48, 48, 48, 48, 48, 48, 48, 48, 48, 48, 48, 48, 48]"
  by (simp add: encode_def)

lemma encode_1: "encode ''0000000000000001'' =
    [48, 48, 48, 48, 48, 48, 48, 48, 48, 48, 48, 48, 48, 48, 48, 49]"
  by (simp add: encode_def)

lemma encode_neg: "encode ''00000000000000-1'' =
    [48, 48, 48, 48, 48, 48, 48, 48, 48, 48, 48, 48, 48, 48, 45, 49]"
  by (simp add: encode_def)

lemma tag_0:
  "generateHmac hmac_platform ''0000000000000000'' ''0000000000000000'' =
     Inr ''34d07d51a1d46518168d300e89edf789a083c1b6294fba1746f8c7d6aa609204''"
  by (simp add: generateHmac_def hmac_platform_def encode_0 hmac_sha256_0 hex_join_simps
      Number_toString_def digits.simps digit_char_def padStart_def)

lemma tag_1:
  "generateHmac hmac_platform ''0000000000000000'' ''0000000000000001'' =
     Inr ''b4eb82b11ca388d4a51cd29fc380e19145169d9ea9b91a2aaba66f193be6e361''"
  by (simp add: generateHmac_def hmac_platform_def encode_0 encode_1 hmac_sha256_1 hex_join_simps
      Number_toString_def digits.simps digit_char_def padStart_def)

lemma tag_neg:
  "generateHmac hmac_platform ''0000000000000000'' ''00000000000000-1'' =
     Inr ''1d2e34a5884c15791a1a56f3651d221f05e713fe88198d756b709874081f6edc''"
  by (simp add: generateHmac_def hmac_platform_def encode_0 encode_neg hmac_sha256_neg
      hex_join_simps Number_toString_def digits.simps digit_char_def padStart_def)

lemmas otp_eval = otp_of_hmac_def substring_def substring_from_def clamp_index_def
  parseInt16_def is_white_def is_hex_def hexval_def hex_value_def digit_value_def
  js_times_def js_plus_def js_bitand_def ToInt32_def js_rem_def Number_toString_def
  digits.simps digit_char_def padStart_def Let_def

lemma otp_of_tag_0:
  "otp_of_hmac ''34d07d51a1d46518168d300e89edf789a083c1b6294fba1746f8c7d6aa609204'' = ''567640''"
  by (simp add: otp_eval)

lemma otp_of_tag_1:
  "otp_of_hmac ''b4eb82b11ca388d4a51cd29fc380e19145169d9ea9b91a2aaba66f193be6e361'' = ''727132''"
  by (simp add: otp_eval)

lemma otp_of_tag_neg:
  "otp_of_hmac ''1d2e34a5884c15791a1a56f3651d221f05e713fe88198d756b709874081f6edc'' = ''408095''"
  by (simp add: otp_eval)

lemma generateOTP_0: "generateOTP hmac_platform 0 (Str []) = Inr ''567640''"
  by (simp add: generateOTP_def secretHex_empty timeHex_0 tag_0 otp_of_tag_0)

lemma generateOTP_1: "generateOTP hmac_platform 1 (Str []) = Inr ''727132''"
  by (simp add: generateOTP_def secretHex_empty timeHex_1 tag_1 otp_of_tag_1)

lemma generateOTP_neg: "generateOTP hmac_platform (- 1) (Str []) = Inr ''408095''"
  by (simp add: generateOTP_def secretHex_empty timeHex_neg tag_neg otp_of_tag_neg)

lemma generateOTP_zeros_0: "generateOTP hmac_platform 0 (Str ''0000000000000000'') = Inr ''567640''"
  by (simp add: generateOTP_def secretHex_zeros timeHex_0 tag_0 otp_of_tag_0)

lemma generateOTP_zeros_1: "generateOTP hmac_platform 1 (Str ''0000000000000000'') = Inr ''727132''"
  by (simp add: generateOTP_def secretHex_zeros timeHex_1 tag_1 otp_of_tag_1)

lemma spec_of_tag_0:
  "spec_offset ''34d07d51a1d46518168d300e89edf789a083c1b6294fba1746f8c7d6aa609204'' = 4"
  "spec_otp_value ''34d07d51a1d46518168d300e89edf789a083c1b6294fba1746f8c7d6aa609204'' = 567640"
  by (simp_all add: spec_otp_value_def spec_offset_def digit_value_def hexval_def big_endian_def)

lemma formatOTP_examples:
  "formatOTP ''567640'' = ''567 640''" "formatOTP ''727132'' = ''727 132''"
  by (simp_all add: formatOTP_def substring_def substring_from_def clamp_index_def)

lemma straddling_pass:
  "interval_callback hmac_platform straddling_world =
     (Inr (),
      straddling_world\<lparr>reads := 7,
        innerText := (\<lambda>ident. [])
          (''monthly-otp'' := ''567 640'',
           ''biweekly-otp'' := ''567 640'',
           ''weekly-otp'' := ''567 640'',
           ''daily-otp'' := ''567 640'',
           ''hourly-otp'' := ''567 640'',
           ''30-minute-otp'' := ''567 640'',
           ''minute-otp'' := ''727 132'')\<rparr>)"
  using interval_callback_run [of "Str []" straddling_world hmac_platform
      "''567640''" "''567640''" "''567640''" "''567640''" "''567640''" "''567640''" "''727132''"]
  by (simp add: straddling_world_def replaceAll_def generateOTP_0 generateOTP_1
      formatOTP_examples)

lemma grouped_run:
  "testCodes hmac_platform (grouped_world separator) =
     (Inr (),
      (grouped_world separator)\<lparr>reads := 7,
        innerText := (\<lambda>ident. [])
          (''test-result'' :=
             (if separator = CHR '' '' then ''Code matches Minute code''
              else ''Code does not match any code''))\<rparr>)"
  using testCodes_run [of "Str ''0000000000000000''" "grouped_world separator"
      "replaceAll CHR '' '' [] (''727'' @ separator # ''132'')" hmac_platform
      "''567640''" "''567640''" "''567640''" "''567640''" "''567640''" "''567640''" "''727132''"
      "[(''Monthly'', ''567640''), (''Bi-Weekly'', ''567640''), (''Weekly'', ''567640''),
        (''Daily'', ''567640''), (''Hourly'', ''567640''), (''30-Minute'', ''567640''),
        (''Minute'', ''727132'')]"]
  by (simp add: grouped_world_def replaceAll_def generateOTP_zeros_0 generateOTP_zeros_1)

section \<open>The claims\<close>

subsection \<open>C1: no validation of the secret or of the time counter\<close>

text \<open>
  Claim C1, as the code has it. The specification announces a ValidationError for an
  empty or non-hexadecimal secret and for a negative or oversized time counter. The code
  has no such check: \<open>generateOTP\<close> rejects exactly when the platform's HMAC rejects,
  with the platform's error, and for every other secret and time counter it returns a
  code of six decimal digits. The inputs are used as they print: the empty secret gives
  the key of sixteen zeros, and a negative counter keeps its minus sign inside the
  padded message.
\<close>

theorem generateOTP_no_validation:
  "(generateOTP sign time secret = Inl e \<longleftrightarrow>
      sign (encode (secretHex secret)) (encode (timeHex time)) = Inl e) \<and>
   (sign (encode (secretHex secret)) (encode (timeHex time)) = Inr signature \<longrightarrow>
      generateOTP sign time secret = Inr (otp_of_hmac (hex_join signature)) \<and>
      length (otp_of_hmac (hex_join signature)) = 6 \<and>
      list_all is_digit (otp_of_hmac (hex_join signature))) \<and>
   secretHex (Str []) = ''0000000000000000'' \<and>
   (time < 0 \<longrightarrow> timeHex time = padStart 16 ''0'' (CHR ''-'' # digits 16 (nat (- time))))"
proof -
  note secretHex_empty
  moreover have "time < 0 \<longrightarrow> timeHex time = padStart 16 ''0'' (CHR ''-'' # digits 16 (nat (- time)))"
    by (simp add: timeHex_def Number_toString_def)
  ultimately show ?thesis
    by (simp add: generateOTP_cases otp_of_hmac_six split: sum.split)
qed

text \<open>
  The statement above at the counter \<open>-1\<close> and the empty secret, on the conforming
  platform.
\<close>

theorem generateOTP_no_validation_witness:
  "generateOTP hmac_platform (- 1) (Str []) =
     Inr (otp_of_hmac (hex_join (map of_nat
       (hmac_sha256 (map unat (encode (secretHex (Str [])))) (map unat (encode (timeHex (- 1)))))))) \<and>
   generateOTP hmac_platform (- 1) (Str []) = Inr ''408095'' \<and>
   secretHex (Str []) = ''0000000000000000'' \<and>
   timeHex (- 1) = padStart 16 ''0'' (CHR ''-'' # digits 16 1) \<and>
   timeHex (- 1) = ''00000000000000-1''"
  using generateOTP_no_validation [of hmac_platform "- 1" "Str []" "PlatformError []"
      "map of_nat (hmac_sha256 (map unat (encode (secretHex (Str []))))
         (map unat (encode (timeHex (- 1)))))"]
    generateOTP_neg timeHex_neg
  by (simp add: hmac_platform_def)

text \<open>
  Claim C1 as the specification words it fails: on the conforming platform the empty
  secret at counter 0 is answered with the code 567640, the very code of the secret
  \<open>0000000000000000\<close>, and the negative counter \<open>-1\<close> is answered with the code
  408095. Neither call fails.
\<close>

theorem generateOTP_validation_counterexample:
  "generateOTP hmac_platform 0 (Str []) = Inr ''567640'' \<and>
   generateOTP hmac_platform 0 (Str ''0000000000000000'') = Inr ''567640'' \<and>
   generateOTP hmac_platform (- 1) (Str []) = Inr ''408095''"
  by (simp add: generateOTP_0 generateOTP_zeros_0 generateOTP_neg)

subsection \<open>C2: the hexadecimal rendering of the counter and of the secret\<close>

text \<open>
  Claim C2, restricted to the inputs on which it holds. For a time counter from 0 to
  \<open>16^16 - 1\<close>, \<open>timeHex\<close> is the string of 16 lowercase hexadecimal characters whose
  value is the counter. A secret that is a number in the same range is rendered the
  same way. The HMAC is computed with the rendered secret as the key and the rendered
  counter as the message, and when the platform returns the 32 bytes of a SHA-256
  signature the tag is a string of 64 lowercase hexadecimal characters, from which the
  code is derived.
\<close>

theorem generateOTP_hex_rendering:
  assumes "0 \<le> time" and "time < 16 ^ 16"
    and "sign (encode (secretHex secret)) (encode (timeHex time)) = Inr signature"
    and "length signature = 32"
  shows "length (timeHex time) = 16 \<and> list_all lower_hex (timeHex time) \<and>
         hex_value (timeHex time) = nat time \<and>
         (\<forall>n. secret = Num n \<and> 0 \<le> n \<and> n < 16 ^ 16 \<longrightarrow>
            length (secretHex secret) = 16 \<and> list_all lower_hex (secretHex secret) \<and>
            hex_value (secretHex secret) = nat n) \<and>
         generateHmac sign (secretHex secret) (timeHex time) = Inr (hex_join signature) \<and>
         length (hex_join signature) = 64 \<and> list_all lower_hex (hex_join signature) \<and>
         generateOTP sign time secret = Inr (otp_of_hmac (hex_join signature))"
proof -
  note t = hex16 [OF assms(1,2), folded timeHex_def]
  have "length (secretHex (Num n)) = 16 \<and> list_all lower_hex (secretHex (Num n)) \<and>
        hex_value (secretHex (Num n)) = nat n" if "0 \<le> n" "n < 16 ^ 16" for n
    using hex16 [OF that] by (simp add: secretHex_def)
  then have s: "\<forall>n. secret = Num n \<and> 0 \<le> n \<and> n < 16 ^ 16 \<longrightarrow>
            length (secretHex secret) = 16 \<and> list_all lower_hex (secretHex secret) \<and>
            hex_value (secretHex secret) = nat n"
    by blast
  have h: "generateHmac sign (secretHex secret) (timeHex time) = Inr (hex_join signature)"
    using assms(3) by (rule generateHmac_Inr)
  have l: "length (hex_join signature) = 64"
    by (simp add: length_hex_join assms(4))
  have "generateOTP sign time secret = Inr (otp_of_hmac (hex_join signature))"
    using h by (simp add: generateOTP_def)
  with t s h l lower_hex_hex_join [of signature] show ?thesis
    by (intro conjI)
qed

text \<open>
  The statement above at the counter 255 and the numeric secret 255, on the conforming
  platform.
\<close>

theorem generateOTP_hex_rendering_witness:
  "length (timeHex 255) = 16 \<and> list_all lower_hex (timeHex 255) \<and> hex_value (timeHex 255) = 255 \<and>
   length (secretHex (Num 255)) = 16 \<and> list_all lower_hex (secretHex (Num 255)) \<and>
   hex_value (secretHex (Num 255)) = 255 \<and>
   length (hex_join (map of_nat (hmac_sha256 (map unat (encode (secretHex (Num 255))))
      (map unat (encode (timeHex 255)))))) = 64 \<and>
   generateOTP hmac_platform 255 (Num 255) =
     Inr (otp_of_hmac (hex_join (map of_nat (hmac_sha256 (map unat (encode (secretHex (Num 255))))
      (map unat (encode (timeHex 255)))))))"
  using generateOTP_hex_rendering [of 255 hmac_platform "Num 255"
      "map of_nat (hmac_sha256 (map unat (encode (secretHex (Num 255))))
         (map unat (encode (timeHex 255))))"]
  by (simp add: hmac_platform_def length_hmac_sha256)

text \<open>
  Claim C2 for every input fails: the counter \<open>-1\<close> is rendered with a minus sign,
  which is no hexadecimal character; the counter \<open>16^16\<close> is rendered in 17 characters;
  the secret \<open>255\<close> given as text is padded as it stands, whereas the number 255 is
  rendered as \<open>ff\<close>; a secret that is no number at all is padded as it stands too.
\<close>

theorem generateOTP_hex_rendering_counterexample:
  "timeHex (- 1) = ''00000000000000-1'' \<and> \<not> list_all lower_hex (timeHex (- 1)) \<and>
   length (timeHex (16 ^ 16)) = 17 \<and>
   secretHex (Str ''255'') = ''0000000000000255'' \<and> secretHex (Num 255) = ''00000000000000ff'' \<and>
   secretHex (Str ''pass'') = ''000000000000pass'' \<and> \<not> list_all lower_hex (secretHex (Str ''pass''))"
  by (simp add: timeHex_def secretHex_def Number_toString_def digits.simps digit_char_def
      padStart_def replicate_num lower_hex_def)

subsection \<open>C3: the clock is read once per granularity\<close>

text \<open>
  Claim C3, as the code has it. The specification asks for one reading of the clock
  per generation pass. In the code each of the seven generators calls \<open>Date.now()\<close>
  itself: in one pass of the interval callback the clock is read seven times, in the
  order monthly, bi-weekly, weekly, daily, hourly, 30-minute, minute, and the time
  counter of each granularity is derived from its own reading. When the seven codes are
  generated, the seven output elements receive them, formatted.
\<close>

theorem pass_reads_clock_per_granularity:
  assumes "secret = Str (replaceAll CHR '' '' [] (field_value w ''secret''))"
    and "generateOTP sign (clock w (reads w) div 2592000000) secret = Inr monthlyOTP"
    and "generateOTP sign (clock w (reads w + 1) div 1209600000) secret = Inr biWeeklyOTP"
    and "generateOTP sign (clock w (reads w + 2) div 604800000) secret = Inr weeklyOTP"
    and "generateOTP sign (clock w (reads w + 3) div 86400000) secret = Inr dailyOTP"
    and "generateOTP sign (clock w (reads w + 4) div 3600000) secret = Inr hourlyOTP"
    and "generateOTP sign (clock w (reads w + 5) div 1800000) secret = Inr thirtyMinuteOTP"
    and "generateOTP sign (clock w (reads w + 6) div 60000) secret = Inr minuteOTP"
  shows "interval_callback sign w =
     (Inr (),
      w\<lparr>reads := reads w + 7,
        innerText := (innerText w)
          (''monthly-otp'' := formatOTP monthlyOTP,
           ''biweekly-otp'' := formatOTP biWeeklyOTP,
           ''weekly-otp'' := formatOTP weeklyOTP,
           ''daily-otp'' := formatOTP dailyOTP,
           ''hourly-otp'' := formatOTP hourlyOTP,
           ''30-minute-otp'' := formatOTP thirtyMinuteOTP,
           ''minute-otp'' := formatOTP minuteOTP)\<rparr>)"
  using assms by (rule interval_callback_run)

text \<open>
  The statement above in \<open>straddling_world\<close>, on the conforming platform.
\<close>

theorem pass_reads_clock_per_granularity_witness:
  "interval_callback hmac_platform straddling_world =
     (Inr (),
      straddling_world\<lparr>reads := 7,
        innerText := (\<lambda>ident. [])
          (''monthly-otp'' := ''567 640'',
           ''biweekly-otp'' := ''567 640'',
           ''weekly-otp'' := ''567 640'',
           ''daily-otp'' := ''567 640'',
           ''hourly-otp'' := ''567 640'',
           ''30-minute-otp'' := ''567 640'',
           ''minute-otp'' := ''727 132'')\<rparr>)"
  using pass_reads_clock_per_granularity [of "Str []" straddling_world hmac_platform
      "''567640''" "''567640''" "''567640''" "''567640''" "''567640''" "''567640''" "''727132''"]
  by (simp add: straddling_world_def replaceAll_def generateOTP_0 generateOTP_1
      formatOTP_examples)

text \<open>
  Claim C3 as the specification words it fails in \<open>straddling_world\<close>: the pass reads
  the clock seven times, not once, and the minute code it displays is the code of the
  counter 1, taken from the seventh reading, whereas the first reading, 59999
  milliseconds, lies in the minute 0, whose code is 567640.
\<close>

theorem single_snapshot_counterexample:
  "reads straddling_world = 0 \<and>
   reads (snd (interval_callback hmac_platform straddling_world)) = 7 \<and>
   clock straddling_world 0 = 59999 \<and>
   generateOTP hmac_platform (59999 div 60000) (Str []) = Inr ''567640'' \<and>
   innerText (snd (interval_callback hmac_platform straddling_world)) ''minute-otp'' =
     formatOTP ''727132''"
  by (simp add: straddling_pass generateOTP_0 formatOTP_examples)
    (simp add: straddling_world_def)

subsection \<open>C4: the truncation\<close>

text \<open>
  Claim C4. When the tag of the HMAC step is a string \<open>T\<close> of 64 hexadecimal characters,
  the code that \<open>generateOTP\<close> returns is the value that the specification describes,
  \<open>spec_otp_value T\<close>, printed in decimal and padded with zeros to six characters: the
  offset is the value of the last character of \<open>T\<close>, at most 15; the eight characters
  from index \<open>offset * 2\<close> are read as four bytes in big-endian order; the high bit is
  masked off with \<open>0x7fffffff\<close>; the rest is reduced modulo 1000000.
\<close>

theorem generateOTP_truncation:
  assumes "generateHmac sign (secretHex secret) (timeHex time) = Inr T"
    and "length T = 64" and "list_all is_hex T"
  shows "spec_offset T \<le> 15 \<and> spec_otp_value T < 1000000 \<and>
         generateOTP sign time secret =
           Inr (padStart 6 ''0'' (Number_toString 10 (Some (int (spec_otp_value T)))))"
proof -
  have "spec_offset T \<le> 15" using tag_offset(3) [OF assms(2,3)] .
  moreover have "spec_otp_value T < 1000000" by (simp add: spec_otp_value_def)
  moreover have "generateOTP sign time secret = Inr (otp_of_hmac T)"
    using assms(1) by (simp add: generateOTP_def)
  ultimately show ?thesis
    by (simp add: otp_of_hmac_spec [OF assms(2,3)])
qed

text \<open>
  The statement above at the counter 0 and the empty secret, on the conforming
  platform.
\<close>

theorem generateOTP_truncation_witness:
  "spec_offset ''34d07d51a1d46518168d300e89edf789a083c1b6294fba1746f8c7d6aa609204'' = 4 \<and>
   spec_otp_value ''34d07d51a1d46518168d300e89edf789a083c1b6294fba1746f8c7d6aa609204'' = 567640 \<and>
   generateOTP hmac_platform 0 (Str []) =
     Inr (padStart 6 ''0'' (Number_toString 10 (Some (int (spec_otp_value
       ''34d07d51a1d46518168d300e89edf789a083c1b6294fba1746f8c7d6aa609204''))))) \<and>
   generateOTP hmac_platform 0 (Str []) = Inr ''567640''"
  using generateOTP_truncation [of hmac_platform "Str []" 0
      "''34d07d51a1d46518168d300e89edf789a083c1b6294fba1746f8c7d6aa609204''"]
    spec_of_tag_0 generateOTP_0
  by (simp add: secretHex_empty timeHex_0 tag_0 is_hex_def hexval_def)

subsection \<open>C5: six decimal digits\<close>

text \<open>
  Claim C5. Whenever \<open>generateOTP\<close> returns, on any platform and for any time counter
  and secret, its result is a string of exactly six decimal digits: the decimal
  rendering of a number below 1000000, padded with zeros.
\<close>

theorem generateOTP_six_digits:
  assumes "generateOTP sign time secret = Inr otp"
  shows "length otp = 6 \<and> list_all is_digit otp \<and>
         (\<exists>n<1000000. otp = padStart 6 ''0'' (Number_toString 10 (Some (int n))))"
proof -
  from assms obtain hmac where otp: "otp = otp_of_hmac hmac"
    by (auto simp: generateOTP_def split: sum.splits)
  from otp_of_hmac_value [of hmac] obtain n
    where n: "n < 1000000" "otp = padStart 6 ''0'' (digits 10 n)"
    by (auto simp: otp)
  then have "otp = padStart 6 ''0'' (Number_toString 10 (Some (int n)))"
    by (simp add: Number_toString_nat)
  with n(1) otp_of_hmac_six [of hmac] otp show ?thesis by blast
qed

text \<open>
  The statement above at the counter 0 and the empty secret, on the conforming
  platform.
\<close>

theorem generateOTP_six_digits_witness:
  "generateOTP hmac_platform 0 (Str []) = Inr ''567640'' \<and>
   length ''567640'' = 6 \<and> list_all is_digit ''567640''"
  using generateOTP_six_digits [OF generateOTP_0] generateOTP_0 by simp

subsection \<open>C6: the verification\<close>

text \<open>
  Claim C6, as the code has it. The specification lets \<open>testCodes\<close> strip the
  white space of the entered code. The code removes the space characters only, code
  unit 32, which are the separators that \<open>formatOTP\<close> inserts: every other character
  of the field, white or not, stays in the code that is compared. \<open>testCodes\<close> then
  generates the seven codes afresh and compares each with that code by equality of
  strings, in the order monthly, bi-weekly, weekly, daily, hourly, 30-minute, minute.
  The result text names the first granularity whose code is equal, and says that no
  code matches when none is. In particular, when the entered code without its spaces is
  the minute code and none of the six codes before it, the answer is the minute label.
\<close>

theorem testCodes_first_match:
  assumes "secret = Str (replaceAll CHR '' '' [] (field_value w ''secret''))"
    and "code = replaceAll CHR '' '' [] (field_value w ''code'')"
    and "generateOTP sign (clock w (reads w) div 2592000000) secret = Inr c1"
    and "generateOTP sign (clock w (reads w + 1) div 1209600000) secret = Inr c2"
    and "generateOTP sign (clock w (reads w + 2) div 604800000) secret = Inr c3"
    and "generateOTP sign (clock w (reads w + 3) div 86400000) secret = Inr c4"
    and "generateOTP sign (clock w (reads w + 4) div 3600000) secret = Inr c5"
    and "generateOTP sign (clock w (reads w + 5) div 1800000) secret = Inr c6"
    and "generateOTP sign (clock w (reads w + 6) div 60000) secret = Inr c7"
    and "codes = [(''Monthly'', c1), (''Bi-Weekly'', c2), (''Weekly'', c3), (''Daily'', c4),
                  (''Hourly'', c5), (''30-Minute'', c6), (''Minute'', c7)]"
  shows "code = filter (\<lambda>c. c \<noteq> CHR '' '') (field_value w ''code'') \<and>
     testCodes sign w =
     (Inr (),
      w\<lparr>reads := reads w + 7,
        innerText := (innerText w)
          (''test-result'' :=
             (case first_match codes code of
                Some label \<Rightarrow> ''Code matches '' @ label @ '' code''
              | None \<Rightarrow> ''Code does not match any code''))\<rparr>) \<and>
     (c7 = code \<and> c1 \<noteq> code \<and> c2 \<noteq> code \<and> c3 \<noteq> code \<and> c4 \<noteq> code \<and> c5 \<noteq> code \<and>
      c6 \<noteq> code \<longrightarrow> first_match codes code = Some ''Minute'')"
proof -
  have "code = filter (\<lambda>c. c \<noteq> CHR '' '') (field_value w ''code'')"
    by (simp add: assms(2) replaceAll_filter)
  moreover note testCodes_run [OF assms]
  ultimately show ?thesis by (simp add: assms(10))
qed

text \<open>
  The statement above in \<open>minute_world\<close>, on the conforming platform: the entered code
  \<open>727 132\<close> is the code of the minute 1 and of no other granularity, whose counters
  are all 0.
\<close>

theorem testCodes_first_match_witness:
  "replaceAll CHR '' '' [] (field_value minute_world ''code'') = ''727132'' \<and>
   testCodes hmac_platform minute_world =
     (Inr (),
      minute_world\<lparr>reads := 7,
        innerText := (\<lambda>ident. [])(''test-result'' := ''Code matches Minute code'')\<rparr>)"
  using testCodes_first_match [of "Str ''0000000000000000''" minute_world "''727132''"
      hmac_platform
      "''567640''" "''567640''" "''567640''" "''567640''" "''567640''" "''567640''" "''727132''"
      "[(''Monthly'', ''567640''), (''Bi-Weekly'', ''567640''), (''Weekly'', ''567640''),
        (''Daily'', ''567640''), (''Hourly'', ''567640''), (''30-Minute'', ''567640''),
        (''Minute'', ''727132'')]"]
  by (simp add: minute_world_def replaceAll_def generateOTP_zeros_0 generateOTP_zeros_1)

text \<open>
  Claim C6 as the specification words it fails: a tab and a no-break space are white
  space, for \<open>parseInt\<close> as for the reader, and with either of them between the two
  groups the minute code \<open>727132\<close> is answered with the text that no code matches,
  whereas with a space between the groups it is recognised.
\<close>

theorem testCodes_whitespace_counterexample:
  "is_white (CHR 0x09) \<and> is_white (CHR 0xA0) \<and>
   field_value (grouped_world (CHR 0x09)) ''code'' = ''727'' @ CHR 0x09 # ''132'' \<and>
   filter (\<lambda>c. \<not> is_white c) (field_value (grouped_world (CHR 0x09)) ''code'') = ''727132'' \<and>
   filter (\<lambda>c. \<not> is_white c) (field_value (grouped_world (CHR 0xA0)) ''code'') = ''727132'' \<and>
   generateOTP hmac_platform (60000 div 60000) (Str ''0000000000000000'') = Inr ''727132'' \<and>
   innerText (snd (testCodes hmac_platform (grouped_world (CHR 0x09)))) ''test-result'' =
     ''Code does not match any code'' \<and>
   innerText (snd (testCodes hmac_platform (grouped_world (CHR 0xA0)))) ''test-result'' =
     ''Code does not match any code'' \<and>
   innerText (snd (testCodes hmac_platform (grouped_world CHR '' ''))) ''test-result'' =
     ''Code matches Minute code''"
  by (simp add: grouped_run generateOTP_zeros_1 is_white_def) (simp add: grouped_world_def)

subsection \<open>C7: determinism\<close>

text \<open>
  Claim C7. The body of \<open>generateOTP\<close>, lines 22 to 29, names its two arguments and
  \<open>generateHmac\<close> and nothing else: neither the clock nor the page. The state of the
  page enters at its callers, the seven generators, which read the clock of the world
  they run in. Take two invocations of \<open>generateOTP\<close> made by any two of the
  generators, in any two worlds, whatever the readings already made, the fields and the
  texts of the page are, and against the platform as it is at each invocation. When
  both generators compute the same time counter for the same secret, and the HMAC
  answers the one question that \<open>generateOTP\<close> asks, the key \<open>secretHex secret\<close> and
  the message \<open>timeHex time\<close>, the same way both times, as a keyed hash does, the two
  invocations return the same result, which is the result of \<open>generateOTP\<close> for that
  pair; and when it is a code, both return the identical string of six decimal digits.
  Neither invocation leaves a trace: each world comes back as it was, but for the one
  reading of the clock that the generator itself made.
\<close>

theorem generateOTP_deterministic:
  assumes "sign1 (encode (secretHex secret)) (encode (timeHex time)) =
           sign2 (encode (secretHex secret)) (encode (timeHex time))"
    and "(G1, c1) \<in> set (generators sign1)" and "clock w1 (reads w1) div c1 = time"
    and "(G2, c2) \<in> set (generators sign2)" and "clock w2 (reads w2) div c2 = time"
  shows "generateOTP sign1 time secret = generateOTP sign2 time secret \<and>
         fst (G1 secret w1) = generateOTP sign1 time secret \<and>
         fst (G2 secret w2) = generateOTP sign1 time secret \<and>
         snd (G1 secret w1) = w1\<lparr>reads := Suc (reads w1)\<rparr> \<and>
         snd (G2 secret w2) = w2\<lparr>reads := Suc (reads w2)\<rparr> \<and>
         (\<forall>otp. generateOTP sign1 time secret = Inr otp \<longrightarrow>
            fst (G1 secret w1) = Inr otp \<and> fst (G2 secret w2) = Inr otp \<and>
            length otp = 6 \<and> list_all is_digit otp)"
proof -
  have same: "generateOTP sign1 time secret = generateOTP sign2 time secret"
    using assms(1) by (simp add: generateOTP_cases)
  have g1: "fst (G1 secret w1) = generateOTP sign1 time secret"
    using generators_call [OF assms(2), of secret w1] assms(3) by simp
  have g2: "fst (G2 secret w2) = generateOTP sign1 time secret"
    using generators_call [OF assms(4), of secret w2] assms(5) same by simp
  have "length otp = 6 \<and> list_all is_digit otp"
    if "generateOTP sign1 time secret = Inr otp" for otp
  proof -
    from that obtain hmac where "otp = otp_of_hmac hmac"
      by (auto simp: generateOTP_def split: sum.splits)
    then show ?thesis by (simp add: otp_of_hmac_six)
  qed
  with same g1 g2 generators_call [OF assms(2), of secret w1]
    generators_call [OF assms(4), of secret w2]
  show ?thesis by simp
qed

text \<open>
  The statement above at the counter 0 and the empty secret: the minute generator in
  \<open>straddling_world\<close> on the conforming platform, and the 30-minute generator in
  \<open>minute_world\<close> on \<open>busy_platform\<close>, which agrees with the conforming platform on
  that question and on no other message.
\<close>

theorem generateOTP_deterministic_witness:
  "generateOTP hmac_platform 0 (Str []) = generateOTP busy_platform 0 (Str []) \<and>
   fst (generateMinutelyOTP hmac_platform (Str []) straddling_world) = Inr ''567640'' \<and>
   fst (generate30MinuteOTP busy_platform (Str []) minute_world) = Inr ''567640'' \<and>
   length ''567640'' = 6 \<and> list_all is_digit ''567640''"
  using generateOTP_deterministic [of hmac_platform "Str []" 0 busy_platform
      "generateMinutelyOTP hmac_platform" 60000 straddling_world
      "generate30MinuteOTP busy_platform" 1800000 minute_world]
    generateOTP_0
  by (simp add: generators_def busy_platform_def timeHex_0 straddling_world_def
      minute_world_def)

subsection \<open>C8: the formatting\<close>

text \<open>
  Claim C8. For a string of six decimal digits, \<open>formatOTP\<close> is the first three
  characters, one space and the last three characters, and removing the space, as
  \<open>testCodes\<close> does with \<open>replaceAll(' ', '')\<close>, gives the string back.
\<close>

theorem formatOTP_round_trip:
  assumes "length otp = 6" and "list_all is_digit otp"
  shows "formatOTP otp = take 3 otp @ '' '' @ drop 3 otp \<and>
         length (take 3 otp) = 3 \<and> length (drop 3 otp) = 3 \<and>
         replaceAll CHR '' '' [] (formatOTP otp) = otp"
proof -
  note fmt = formatOTP_six [OF assms(1)]
  have "\<forall>c\<in>set otp. c \<noteq> CHR '' ''"
    using assms(2) by (simp add: list_all_iff is_digit_not_space)
  then have "filter (\<lambda>c. c \<noteq> CHR '' '') otp = otp" by simp
  moreover have "replaceAll CHR '' '' [] (formatOTP otp) =
      filter (\<lambda>c. c \<noteq> CHR '' '') (take 3 otp @ drop 3 otp)"
    unfolding fmt replaceAll_filter by (simp del: append_take_drop_id)
  ultimately have "replaceAll CHR '' '' [] (formatOTP otp) = otp" by simp
  with fmt assms(1) show ?thesis by simp
qed

text \<open>
  The statement above at the code 567640.
\<close>

theorem formatOTP_round_trip_witness:
  "formatOTP ''567640'' = ''567 640'' \<and> replaceAll CHR '' '' [] (formatOTP ''567640'') = ''567640''"
  using formatOTP_round_trip [of "''567640''"] by (simp add: is_digit_def replaceAll_def)

subsection \<open>C9: a secret that is a string\<close>

text \<open>
  Claim C9. When the secret is a string, \<open>toString(16)\<close> returns it unchanged whatever
  the radix, so the key of the HMAC is the string itself, with zeros in front up to 16
  characters and as it stands from 16 characters on. Nothing is parsed or validated,
  and the empty secret gives the key \<open>0000000000000000\<close>.
\<close>

theorem string_secret_key:
  "toString radix (Str s) = s \<and>
   secretHex (Str s) = replicate (16 - length s) CHR ''0'' @ s \<and>
   (16 \<le> length s \<longrightarrow> secretHex (Str s) = s) \<and>
   secretHex (Str []) = ''0000000000000000'' \<and>
   generateOTP sign time (Str s) =
     (case sign (encode (replicate (16 - length s) CHR ''0'' @ s)) (encode (timeHex time)) of
        Inl e \<Rightarrow> Inl e
      | Inr signature \<Rightarrow> Inr (otp_of_hmac (hex_join signature)))"
proof -
  have key: "secretHex (Str s) = replicate (16 - length s) CHR ''0'' @ s" for s
    by (simp add: secretHex_def padStart_zero)
  from key [of s] generateOTP_cases [of sign time "Str s"] secretHex_empty show ?thesis
    by simp
qed

text \<open>
  The statement above at a secret of three characters and at one of nineteen.
\<close>

theorem string_secret_key_witness:
  "secretHex (Str ''255'') = ''0000000000000255'' \<and>
   secretHex (Str ''0123456789abcdefXYZ'') = ''0123456789abcdefXYZ''"
  using string_secret_key [of 16 "''255''" hmac_platform 0]
    string_secret_key [of 16 "''0123456789abcdefXYZ''" hmac_platform 0]
  by (simp add: replicate_num)

subsection \<open>C10: the truncation stays inside the tag\<close>

text \<open>
  Claim C10. When the HMAC step of \<open>generateOTP\<close> produces a tag \<open>T\<close> of 64
  hexadecimal characters, the offset that the truncation reads from the last character
  is at most 15, so the substring it extracts starts at index 30 at most and ends at
  index 38 at most, strictly inside the tag. The substring has exactly eight
  characters, all hexadecimal, \<open>parseInt\<close> returns their value for it, not \<open>NaN\<close>, and
  the code that \<open>generateOTP\<close> returns is computed from that value.
\<close>

theorem truncation_in_bounds:
  assumes "generateHmac sign (secretHex secret) (timeHex time) = Inr T"
    and "length T = 64" and "list_all is_hex T"
  shows "parseInt16 (substring_from T (Some (int (length T) - 1))) = Some (int (spec_offset T)) \<and>
         spec_offset T \<le> 15 \<and> spec_offset T * 2 \<le> 30 \<and> spec_offset T * 2 + 8 \<le> 38 \<and>
         38 < length T \<and>
         substring T (js_times (Some (int (spec_offset T))) 2)
                     (js_plus (js_times (Some (int (spec_offset T))) 2) 8) =
           take 8 (drop (spec_offset T * 2) T) \<and>
         length (take 8 (drop (spec_offset T * 2) T)) = 8 \<and>
         list_all is_hex (take 8 (drop (spec_offset T * 2) T)) \<and>
         parseInt16 (take 8 (drop (spec_offset T * 2) T)) =
           Some (int (hex_value (take 8 (drop (spec_offset T * 2) T)))) \<and>
         otp_of_hmac T =
           padStart 6 ''0'' (Number_toString 10
             (js_rem (js_bitand (Some (int (hex_value (take 8 (drop (spec_offset T * 2) T)))))
                        (Some 2147483647)) 1000000)) \<and>
         generateOTP sign time secret =
           Inr (padStart 6 ''0'' (Number_toString 10
             (js_rem (js_bitand (Some (int (hex_value (take 8 (drop (spec_offset T * 2) T)))))
                        (Some 2147483647)) 1000000)))"
proof -
  note off = tag_offset [OF assms(2,3)]
  note ch = tag_chunk [OF assms(2,3) off(3)]
  from off(3) have b: "spec_offset T * 2 \<le> 30" "spec_offset T * 2 + 8 \<le> 38" by simp_all
  have o: "otp_of_hmac T =
           padStart 6 ''0'' (Number_toString 10
             (js_rem (js_bitand (Some (int (hex_value (take 8 (drop (spec_offset T * 2) T)))))
                        (Some 2147483647)) 1000000))"
    by (simp add: otp_of_hmac_def Let_def off(2) ch(1) ch(4))
  have g: "generateOTP sign time secret = Inr (otp_of_hmac T)"
    using assms(1) by (simp add: generateOTP_def)
  from off(2,3) b ch assms(2) o g show ?thesis by simp
qed

text \<open>
  The statement above at the counter 0 and the empty secret, on the conforming
  platform: the last character of the tag is 4 and the substring is \<open>a1d46518\<close>.
\<close>

theorem truncation_in_bounds_witness:
  "spec_offset ''34d07d51a1d46518168d300e89edf789a083c1b6294fba1746f8c7d6aa609204'' = 4 \<and>
   substring ''34d07d51a1d46518168d300e89edf789a083c1b6294fba1746f8c7d6aa609204''
      (js_times (Some 4) 2) (js_plus (js_times (Some 4) 2) 8) = ''a1d46518'' \<and>
   parseInt16 ''a1d46518'' = Some 2715051288 \<and>
   generateOTP hmac_platform 0 (Str []) =
     Inr (padStart 6 ''0'' (Number_toString 10
       (js_rem (js_bitand (Some 2715051288) (Some 2147483647)) 1000000))) \<and>
   generateOTP hmac_platform 0 (Str []) = Inr ''567640''"
  using truncation_in_bounds [of hmac_platform "Str []" 0
      "''34d07d51a1d46518168d300e89edf789a083c1b6294fba1746f8c7d6aa609204''"]
    spec_of_tag_0(1) generateOTP_0
  by (simp add: secretHex_empty timeHex_0 tag_0 is_hex_def hexval_def hex_value_def
      digit_value_def)

end
